theory Spec2Isabelle
  imports Main
begin

section \<open>The JavaScript primitives the handlers use\<close>

text \<open>
  Request fields (\<open>req.body.x\<close>, \<open>req.query.x\<close>, \<open>req.params.x\<close>) are form or
  query fields: absent (\<open>undefined\<close>, here \<open>None\<close>) or an ASCII string. A string is
  truthy iff it is not empty.
\<close>

definition falsy :: "string option \<Rightarrow> bool" where
  "falsy v = (case v of None \<Rightarrow> True | Some s \<Rightarrow> s = [])"

definition truthy :: "string option \<Rightarrow> bool" where
  "truthy v = (\<not> falsy v)"

text \<open>The string of a field that is known to be present.\<close>

definition str :: "string option \<Rightarrow> string" where
  "str v = (case v of None \<Rightarrow> [] | Some s \<Rightarrow> s)"

definition isWhiteSpace :: "char \<Rightarrow> bool" where
  "isWhiteSpace c = (c \<in> set [CHR 0x09, CHR 0x0A, CHR 0x0B, CHR 0x0C, CHR 0x0D, CHR '' ''])"

text \<open>\<open>String.prototype.trim\<close>: white space removed at both ends.\<close>

definition trim :: "string \<Rightarrow> string" where
  "trim s = rev (dropWhile isWhiteSpace (rev (dropWhile isWhiteSpace s)))"

definition isDigit :: "char \<Rightarrow> bool" where
  "isDigit c = (c \<in> set ''0123456789'')"

definition isHexDigit :: "char \<Rightarrow> bool" where
  "isHexDigit c = (c \<in> set ''0123456789abcdefABCDEF'')"

text \<open>The value of a digit in a radix up to 16 (0 for any other character).\<close>

definition digitVal :: "char \<Rightarrow> int" where
  "digitVal c =
     (case map_of (zip ''0123456789abcdefABCDEF''
                     [0, 1, 2, 3, 4, 5, 6, 7, 8, 9, 10, 11, 12, 13, 14, 15,
                      10, 11, 12, 13, 14, 15]) c of
        None \<Rightarrow> 0
      | Some v \<Rightarrow> v)"

definition numeralValue :: "int \<Rightarrow> string \<Rightarrow> int" where
  "numeralValue R z = foldl (\<lambda>a c. a * R + digitVal c) 0 z"

text \<open>
  A JavaScript number that is an integer or infinite. \<open>toNumber\<close> is the conversion
  of a mathematical integer to the nearest double, with ties to the even significand:
  exact up to \<open>2^53\<close> in magnitude, rounded to 53 significant bits beyond, and infinite
  from \<open>2^1024 - 2^970\<close> on.
\<close>

datatype number = Num int | PlusInfinity | MinusInfinity

function bitLength :: "int \<Rightarrow> int" where
  "bitLength n = (if n \<le> 0 then 0 else 1 + bitLength (n div 2))"
  by pat_completeness auto
termination
  by (relation "measure nat") auto

declare bitLength.simps [simp del]

definition toNumber :: "int \<Rightarrow> number" where
  "toNumber x =
     (let a = \<bar>x\<bar>;
          shift = bitLength a - 53
      in if shift \<le> 0 then Num x
         else (let p = 2 ^ nat shift;
                   q = a div p;
                   r = a mod p;
                   v = (if p < 2 * r \<or> (2 * r = p \<and> odd q) then q + 1 else q) * p
               in if 2 ^ 1024 \<le> v then (if x < 0 then MinusInfinity else PlusInfinity)
                  else Num (if x < 0 then - v else v)))"

text \<open>The comparisons \<open>> 0\<close> and \<open><= 0\<close> of a number that is not \<open>NaN\<close>.\<close>

definition positive :: "number \<Rightarrow> bool" where
  "positive v = (case v of Num n \<Rightarrow> 0 < n | PlusInfinity \<Rightarrow> True | MinusInfinity \<Rightarrow> False)"

definition atMostZero :: "number \<Rightarrow> bool" where
  "atMostZero v = (case v of Num n \<Rightarrow> n \<le> 0 | PlusInfinity \<Rightarrow> False | MinusInfinity \<Rightarrow> True)"

text \<open>What \<open>JSON.stringify\<close> writes for a number: an infinite one is \<open>null\<close>, here \<open>None\<close>.\<close>

definition jsonNumber :: "number \<Rightarrow> int option" where
  "jsonNumber v = (case v of Num n \<Rightarrow> Some n | PlusInfinity \<Rightarrow> None | MinusInfinity \<Rightarrow> None)"

text \<open>
  \<open>parseInt(string)\<close> with no radix (ECMA-262): leading white space is skipped, one sign
  is read, a \<open>0x\<close> or \<open>0X\<close> prefix selects radix 16, and the longest prefix of digits is
  read; with no digit the result is \<open>NaN\<close>, here \<open>None\<close>. Whatever follows the digits
  is ignored. The result is the double nearest to the integer that the digits write (the
  standard lets an engine replace decimal digits after the twentieth by zeros; V8 rounds
  the digits as they are).
\<close>

definition parseInt :: "string \<Rightarrow> number option" where
  "parseInt inputString =
     (let S = dropWhile isWhiteSpace inputString;
          sign = (if take 1 S = ''-'' then - 1 else (1 :: int));
          S1 = (if take 1 S = ''-'' \<or> take 1 S = ''+'' then drop 1 S else S);
          hex = (take 2 S1 = ''0x'' \<or> take 2 S1 = ''0X'');
          S2 = (if hex then drop 2 S1 else S1);
          Z = takeWhile (if hex then isHexDigit else isDigit) S2
      in if Z = [] then None
         else Some (toNumber (sign * numeralValue (if hex then 16 else 10) Z)))"

subsection \<open>Dates\<close>

text \<open>
  A valid \<open>Date\<close> is its time value: milliseconds since 1970-01-01T00:00:00Z, an
  integer. \<open>Invalid Date\<close> (time value \<open>NaN\<close>) is \<open>None\<close>.
\<close>

type_synonym time = int

definition msPerDay :: int where
  "msPerDay = 86400000"

text \<open>
  The calendar of ECMA-262 (Day Number, Year Number, Month Number, Date Number, Week
  Day): a year has 365 or 366 days, \<open>dayFromYear y\<close> is the day number of its first
  day, and the year of a day is the last year that begins on or before it.
\<close>

definition daysInYear :: "int \<Rightarrow> int" where
  "daysInYear y =
     (if y mod 4 \<noteq> 0 then 365 else if y mod 100 \<noteq> 0 then 366
      else if y mod 400 \<noteq> 0 then 365 else 366)"

definition inLeapYear :: "int \<Rightarrow> int" where
  "inLeapYear y = (if daysInYear y = 366 then 1 else 0)"

definition dayFromYear :: "int \<Rightarrow> int" where
  "dayFromYear y =
     365 * (y - 1970) + (y - 1969) div 4 - (y - 1901) div 100 + (y - 1601) div 400"

text \<open>A year begins \<open>daysInYear\<close> days after the year before it.\<close>

lemma div_succ:
  fixes x k :: int
  assumes "0 < k"
  shows "(x + 1) div k = x div k + (if k dvd (x + 1) then 1 else 0)"
proof (cases "k dvd (x + 1)")
  case True
  then obtain q where q: "x + 1 = k * q" by (auto simp: dvd_def)
  then have "x = k * (q - 1) + (k - 1)" by (simp add: algebra_simps)
  then have "x div k = q - 1"
    using assms by (intro int_div_pos_eq[where r = "k - 1"]) auto
  moreover have "(x + 1) div k = q" using q assms by simp
  ultimately show ?thesis using True by simp
next
  case False
  define r where "r = (x + 1) mod k"
  have r: "0 < r" "r < k"
    using False assms pos_mod_sign[of k "x + 1"] pos_mod_bound[of k "x + 1"]
    by (auto simp: r_def dvd_eq_mod_eq_0 order_less_le)
  have "x + 1 = k * ((x + 1) div k) + r" by (simp add: r_def)
  then have "x = k * ((x + 1) div k) + (r - 1)" by simp
  then have "x div k = (x + 1) div k"
    using r by (intro int_div_pos_eq[where r = "r - 1"]) auto
  then show ?thesis using False by simp
qed

lemma dayFromYear_succ: "dayFromYear (y + 1) = dayFromYear y + daysInYear y"
proof -
  have 4: "(y - 1968) div 4 = (y - 1969) div 4 + (if 4 dvd y then 1 else 0)"
    using div_succ[of 4 "y - 1969"] dvd_diff_left_iff[of 4 1968 y] by simp
  have 100: "(y - 1900) div 100 = (y - 1901) div 100 + (if 100 dvd y then 1 else 0)"
    using div_succ[of 100 "y - 1901"] dvd_diff_left_iff[of 100 1900 y] by simp
  have 400: "(y - 1600) div 400 = (y - 1601) div 400 + (if 400 dvd y then 1 else 0)"
    using div_succ[of 400 "y - 1601"] dvd_diff_left_iff[of 400 1600 y] by simp
  have a: "100 dvd y \<Longrightarrow> 4 dvd y"
    by (rule dvd_trans[of 4 100]) simp_all
  have b: "400 dvd y \<Longrightarrow> 100 dvd y"
    by (rule dvd_trans[of 100 400]) simp_all
  have "dayFromYear (y + 1) =
      365 * (y - 1969) + (y - 1968) div 4 - (y - 1900) div 100 + (y - 1600) div 400"
    by (simp add: dayFromYear_def)
  also have "\<dots> = dayFromYear y + daysInYear y"
    using a b by (auto simp: 4 100 400 dayFromYear_def daysInYear_def mod_eq_0_iff_dvd)
  finally show ?thesis .
qed

lemma daysInYear_bounds: "365 \<le> daysInYear y" "daysInYear y \<le> 366"
  by (simp_all add: daysInYear_def)

text \<open>The search for the year of a day, upwards from a year that begins on or before it.\<close>

function yearFrom :: "int \<Rightarrow> int \<Rightarrow> int" where
  "yearFrom day y = (if dayFromYear (y + 1) \<le> day then yearFrom day (y + 1) else y)"
  by pat_completeness auto
termination
proof (relation "measure (\<lambda>(day, y). nat (day + 1 - dayFromYear (y + 1)))")
  show "wf (measure (\<lambda>(day, y). nat (day + 1 - dayFromYear (y + 1))))"
    by simp
next
  fix day y :: int
  assume "dayFromYear (y + 1) \<le> day"
  moreover have "dayFromYear (y + 1) < dayFromYear (y + 1 + 1)"
    using dayFromYear_succ [of "y + 1"] daysInYear_bounds(1) [of "y + 1"] by simp
  ultimately show "((day, y + 1), day, y)
      \<in> measure (\<lambda>(day, y). nat (day + 1 - dayFromYear (y + 1)))"
    by simp
qed

declare yearFrom.simps [simp del]

definition yearFromDay :: "int \<Rightarrow> int" where
  "yearFromDay day =
     yearFrom day (1970 + (if 0 \<le> day then day div 366 else day div 365))"

text \<open>The first day of each month in the year, months counted from 0, and its inverse.\<close>

definition monthStart :: "int \<Rightarrow> int \<Rightarrow> int" where
  "monthStart leap m =
     (if m = 0 then 0 else if m = 1 then 31
      else [59, 90, 120, 151, 181, 212, 243, 273, 304, 334] ! nat (m - 2) + leap)"

definition monthFromDay :: "int \<Rightarrow> int \<Rightarrow> int" where
  "monthFromDay leap d =
     (if d < 31 then 0 else if d < 59 + leap then 1 else if d < 90 + leap then 2
      else if d < 120 + leap then 3 else if d < 151 + leap then 4
      else if d < 181 + leap then 5 else if d < 212 + leap then 6
      else if d < 243 + leap then 7 else if d < 273 + leap then 8
      else if d < 304 + leap then 9 else if d < 334 + leap then 10 else 11)"

text \<open>\<open>MakeDay\<close> for a month from 1 to 12 and a day of the month.\<close>

definition makeDay :: "int \<Rightarrow> int \<Rightarrow> int \<Rightarrow> int" where
  "makeDay y m d = dayFromYear y + monthStart (inLeapYear y) (m - 1) + d - 1"

definition daysInMonth :: "int \<Rightarrow> int \<Rightarrow> int" where
  "daysInMonth y m =
     (if m = 2 then 28 + inLeapYear y
      else if m = 4 \<or> m = 6 \<or> m = 9 \<or> m = 11 then 30 else 31)"

text \<open>
  The date-only form \<open>YYYY-MM-DD\<close> of the ECMA-262 date-time string format, which
  \<open>new Date(string)\<close> reads as midnight UTC of that day.
\<close>

definition parseIsoDate :: "string \<Rightarrow> time option" where
  "parseIsoDate s =
     (if length s = 10 \<and> s ! 4 = CHR ''-'' \<and> s ! 7 = CHR ''-''
         \<and> list_all isDigit (take 4 s) \<and> list_all isDigit (take 2 (drop 5 s))
         \<and> list_all isDigit (drop 8 s)
      then (let y = numeralValue 10 (take 4 s);
                m = numeralValue 10 (take 2 (drop 5 s));
                d = numeralValue 10 (drop 8 s)
            in if 1 \<le> m \<and> m \<le> 12 \<and> 1 \<le> d \<and> d \<le> daysInMonth y m
               then Some (makeDay y m d * msPerDay) else None)
      else None)"

text \<open>
  \<open>new Date(string)\<close>. A string that is not a date-only form is read by the engine's
  other formats and heuristics, which are a parameter here: \<open>other\<close> gives the time
  value the engine finds, or \<open>None\<close> for \<open>Invalid Date\<close>.
\<close>

definition newDate :: "(string \<Rightarrow> time option) \<Rightarrow> string \<Rightarrow> time option" where
  "newDate other s = (case parseIsoDate s of Some t \<Rightarrow> Some t | None \<Rightarrow> other s)"

text \<open>An engine that reads nothing but the date-only form.\<close>

definition isoOnly :: "string \<Rightarrow> time option" where
  "isoOnly s = None"

text \<open>
  Local time is UTC plus a fixed offset of \<open>tz\<close> minutes (the server's time zone, east
  of Greenwich positive). \<open>setHours(23, 59, 59, 999)\<close> moves a time value to the last
  millisecond of its local day.
\<close>

definition localTime :: "int \<Rightarrow> time \<Rightarrow> int" where
  "localTime tz t = t + tz * 60000"

definition setHoursEndOfDay :: "int \<Rightarrow> time \<Rightarrow> time" where
  "setHoursEndOfDay tz t =
     (localTime tz t div msPerDay) * msPerDay + (msPerDay - 1) - tz * 60000"

text \<open>The decimal digits of a number that is not negative, and the same padded with zeros.\<close>

function decimal :: "int \<Rightarrow> string" where
  "decimal n = (if n < 10 then [''0123456789'' ! nat n]
                else decimal (n div 10) @ [''0123456789'' ! nat (n mod 10)])"
  by pat_completeness auto
termination
  by (relation "measure nat") auto

declare decimal.simps [simp del]

definition zeroPadded :: "int \<Rightarrow> nat \<Rightarrow> string" where
  "zeroPadded n k = (let s = decimal n in replicate (k - length s) (CHR ''0'') @ s)"

definition weekdayNames :: "string list" where
  "weekdayNames = [''Sun'', ''Mon'', ''Tue'', ''Wed'', ''Thu'', ''Fri'', ''Sat'']"

definition monthNames :: "string list" where
  "monthNames = [''Jan'', ''Feb'', ''Mar'', ''Apr'', ''May'', ''Jun'',
                 ''Jul'', ''Aug'', ''Sep'', ''Oct'', ''Nov'', ''Dec'']"

text \<open>
  \<open>DateString\<close> of ECMA-262 for a day number: the name of the weekday, the name of
  the month, the day of the month on two digits and the year on at least four digits,
  after a minus sign when it is negative.
\<close>

definition dateString :: "int \<Rightarrow> string" where
  "dateString day =
     (let y = yearFromDay day;
          dayWithinYear = day - dayFromYear y;
          m = monthFromDay (inLeapYear y) dayWithinYear;
          d = dayWithinYear - monthStart (inLeapYear y) m + 1
      in weekdayNames ! nat ((day + 4) mod 7) @ '' '' @ monthNames ! nat m @ '' ''
         @ zeroPadded d 2 @ '' ''
         @ (if y < 0 then ''-'' else []) @ zeroPadded \<bar>y\<bar> 4)"

text \<open>\<open>Date.prototype.toDateString\<close> of a valid date: the date string of its local day.\<close>

definition toDateString :: "int \<Rightarrow> time \<Rightarrow> string" where
  "toDateString tz t = dateString (localTime tz t div msPerDay)"

text \<open>
  The strings of the form \<open>Www Mmm DD YYYY\<close>: a weekday name, a month name, two
  digits, and four digits or more after an optional minus sign.
\<close>

definition isYearString :: "string \<Rightarrow> bool" where
  "isYearString s =
     (let ds = (if take 1 s = ''-'' then drop 1 s else s)
      in 4 \<le> length ds \<and> list_all isDigit ds)"

definition isDateString :: "string \<Rightarrow> bool" where
  "isDateString s =
     (take 3 s \<in> set weekdayNames \<and> take 1 (drop 3 s) = '' ''
      \<and> take 3 (drop 4 s) \<in> set monthNames \<and> take 1 (drop 7 s) = '' ''
      \<and> length (take 2 (drop 8 s)) = 2 \<and> list_all isDigit (take 2 (drop 8 s))
      \<and> take 1 (drop 10 s) = '' ''
      \<and> isYearString (drop 11 s))"

section \<open>The store\<close>

text \<open>
  An \<open>ObjectId\<close> is twelve bytes. Mongoose casts a string of twenty-four hexadecimal
  digits to one. Whether it also casts a string of twelve characters (to their codes)
  depends on the installed version, which the sources do not fix: \<open>twelve\<close> says so.
  For any other string the cast fails and the query rejects with a \<open>CastError\<close>.
\<close>

type_synonym objectId = "nat list"

fun hexBytes :: "string \<Rightarrow> nat list" where
  "hexBytes (a # b # s) = nat (digitVal a * 16 + digitVal b) # hexBytes s"
| "hexBytes s = []"

definition castObjectId :: "bool \<Rightarrow> string \<Rightarrow> objectId option" where
  "castObjectId twelve s =
     (if length s = 24 \<and> list_all isHexDigit s then Some (hexBytes s)
      else if twelve \<and> length s = 12 then Some (map of_char s)
      else None)"

record user =
  user_id :: objectId
  user_username :: string

record exercise =
  exercise_id :: objectId
  exercise_userId :: objectId
  exercise_description :: string
  exercise_duration :: number
  exercise_date :: time

text \<open>
  The two collections, each in insertion order, which is the order of a query, and
  whether the installed Mongoose casts twelve characters to an \<open>ObjectId\<close>. The
  database is reachable and requests are handled one after the other; the only failure
  of the database in the model is a query with a limit it does not apply.
\<close>

record store =
  users :: "user list"
  exercises :: "exercise list"
  castsTwelve :: bool

text \<open>
  What a handler answers when it does not answer with the result: one constructor for
  each \<open>res.status(...).json({error: ...})\<close> of the sources. \<open>Unanswered\<close> is a
  handler with no \<open>try\<close> whose promise rejects: no response is sent.
\<close>

datatype failure =
    UsernameRequired
  | FieldsRequired
  | DurationNotANumber
  | DurationNotPositive
  | InvalidDate
  | InvalidFrom
  | InvalidTo
  | InvalidLimit
  | InvalidUserId
  | UserNotFound
  | ServerError
  | Unanswered

fun status :: "failure \<Rightarrow> nat option" where
  "status UserNotFound = Some 404"
| "status ServerError = Some 500"
| "status Unanswered = None"
| "status e = Some 400"

text \<open>The JSON bodies of the successful answers.\<close>

record user_json =
  created_username :: string
  created_id :: objectId

record exercise_json =
  added_id :: objectId
  added_username :: string
  added_description :: string
  added_duration :: "int option"
  added_date :: string

record log_entry =
  entry_description :: string
  entry_duration :: "int option"
  entry_date :: string

record log_json =
  logs_id :: objectId
  logs_username :: string
  logs_count :: nat
  logs_log :: "log_entry list"

text \<open>
  \<open>User.findById(id)\<close>: \<open>Inl ()\<close> is the \<open>CastError\<close> of an id that is not an
  \<open>ObjectId\<close>, \<open>Inr None\<close> is \<open>null\<close>.
\<close>

definition findById :: "store \<Rightarrow> string \<Rightarrow> unit + user option" where
  "findById st i =
     (case castObjectId (castsTwelve st) i of
        None \<Rightarrow> Inl ()
      | Some oid \<Rightarrow> Inr (find (\<lambda>u. user_id u = oid) (users st)))"

section \<open>server.js\<close>

text \<open>\<open>POST /api/users\<close>. \<open>newId\<close> is the \<open>ObjectId\<close> the driver gives a new document.\<close>

definition server_createUser ::
  "objectId \<Rightarrow> store \<Rightarrow> string option \<Rightarrow> store \<times> (failure + user_json)" where
  "server_createUser newId st username =
     (if falsy username then (st, Inl UsernameRequired)
      else (case find (\<lambda>u. user_username u = str username) (users st) of
              Some u \<Rightarrow> (st, Inr \<lparr>created_username = user_username u, created_id = user_id u\<rparr>)
            | None \<Rightarrow>
                (let u = \<lparr>user_id = newId, user_username = str username\<rparr>
                 in (st\<lparr>users := users st @ [u]\<rparr>,
                     Inr \<lparr>created_username = user_username u, created_id = user_id u\<rparr>))))"

text \<open>\<open>GET /api/users\<close>.\<close>

definition server_listUsers :: "store \<Rightarrow> user_json list" where
  "server_listUsers st =
     map (\<lambda>u. \<lparr>created_username = user_username u, created_id = user_id u\<rparr>) (users st)"

text \<open>
  \<open>POST /api/users/:_id/exercises\<close>. \<open>other\<close> and \<open>tz\<close> are the engine's date
  reader and the server's time zone, \<open>now\<close> is the clock at the request.
\<close>

definition server_addExercise ::
  "(string \<Rightarrow> time option) \<Rightarrow> int \<Rightarrow> time \<Rightarrow> objectId \<Rightarrow> store \<Rightarrow> string
     \<Rightarrow> string option \<Rightarrow> string option \<Rightarrow> string option
     \<Rightarrow> store \<times> (failure + exercise_json)" where
  "server_addExercise other tz now newId st userId description duration date =
     (if falsy description \<or> falsy duration then (st, Inl FieldsRequired)
      else (case parseInt (str duration) of
              None \<Rightarrow> (st, Inl DurationNotANumber)
            | Some durationNum \<Rightarrow>
                (let dateObj =
                       (if truthy date \<and> trim (str date) \<noteq> []
                        then (case newDate other (str date) of
                                None \<Rightarrow> now
                              | Some t \<Rightarrow> t)
                        else now)
                 in (case findById st userId of
                       Inl _ \<Rightarrow> (st, Inl InvalidUserId)
                     | Inr None \<Rightarrow> (st, Inl UserNotFound)
                     | Inr (Some u) \<Rightarrow>
                         (let newExercise =
                                \<lparr>exercise_id = newId, exercise_userId = user_id u,
                                 exercise_description = str description,
                                 exercise_duration = durationNum,
                                 exercise_date = dateObj\<rparr>
                          in (st\<lparr>exercises := exercises st @ [newExercise]\<rparr>,
                              Inr \<lparr>added_id = user_id u,
                                   added_username = user_username u,
                                   added_description = exercise_description newExercise,
                                   added_duration =
                                     jsonNumber (exercise_duration newExercise),
                                   added_date = toDateString tz (exercise_date newExercise)\<rparr>))))))"

text \<open>The \<open>$gte\<close> and \<open>$lte\<close> conditions of a query; an absent one holds.\<close>

definition gte :: "time option \<Rightarrow> time \<Rightarrow> bool" where
  "gte bound t = (case bound of None \<Rightarrow> True | Some b \<Rightarrow> b \<le> t)"

definition lte :: "time option \<Rightarrow> time \<Rightarrow> bool" where
  "lte bound t = (case bound of None \<Rightarrow> True | Some b \<Rightarrow> t \<le> b)"

definition logEntry :: "int \<Rightarrow> exercise \<Rightarrow> log_entry" where
  "logEntry tz ex =
     \<lparr>entry_description = exercise_description ex,
      entry_duration = jsonNumber (exercise_duration ex),
      entry_date = toDateString tz (exercise_date ex)\<rparr>"

text \<open>
  \<open>GET /api/users/:_id/logs\<close>. First the date conditions of the query: a bound that
  is given and is not a date ends the request; the \<open>to\<close> bound is moved to the end of
  its local day.
\<close>

definition server_dateFilter ::
  "(string \<Rightarrow> time option) \<Rightarrow> int \<Rightarrow> string option \<Rightarrow> string option
     \<Rightarrow> failure + (time option \<times> time option)" where
  "server_dateFilter other tz from to =
     (if truthy from \<and> newDate other (str from) = None then Inl InvalidFrom
      else if truthy to \<and> newDate other (str to) = None then Inl InvalidTo
      else Inr (if truthy from then newDate other (str from) else None,
                if truthy to then map_option (setHoursEndOfDay tz) (newDate other (str to))
                else None))"

text \<open>
  Then the limit of the query: a positive one is applied, one that is zero or negative
  ends the request, and one that \<open>parseInt\<close> cannot read is not applied. The database
  applies a limit up to \<open>2^53\<close>; whether it applies a larger or an infinite one, or
  makes the query fail, is the parameter \<open>applies\<close>.
\<close>

definition queryLimit :: "(number \<Rightarrow> bool) \<Rightarrow> number \<Rightarrow> 'a list \<Rightarrow> failure + 'a list" where
  "queryLimit applies v found =
     (case v of
        Num n \<Rightarrow>
          (if n \<le> 2 ^ 53 then Inr (take (nat n) found)
           else if applies v then Inr (take (nat n) found) else Inl ServerError)
      | PlusInfinity \<Rightarrow> (if applies v then Inr found else Inl ServerError)
      | MinusInfinity \<Rightarrow> (if applies v then Inr [] else Inl ServerError))"

definition server_limit ::
  "(number \<Rightarrow> bool) \<Rightarrow> string option \<Rightarrow> exercise list \<Rightarrow> failure + exercise list" where
  "server_limit applies limit found =
     (if truthy limit
      then (case parseInt (str limit) of
              None \<Rightarrow> Inr found
            | Some limitNum \<Rightarrow>
                (if positive limitNum then queryLimit applies limitNum found
                 else Inl InvalidLimit))
      else Inr found)"

definition server_getLog ::
  "(number \<Rightarrow> bool) \<Rightarrow> (string \<Rightarrow> time option) \<Rightarrow> int \<Rightarrow> store \<Rightarrow> string
     \<Rightarrow> string option \<Rightarrow> string option \<Rightarrow> string option \<Rightarrow> failure + log_json" where
  "server_getLog applies other tz st userId from to limit =
     (case findById st userId of
        Inl _ \<Rightarrow> Inl InvalidUserId
      | Inr None \<Rightarrow> Inl UserNotFound
      | Inr (Some u) \<Rightarrow>
          (case server_dateFilter other tz from to of
             Inl e \<Rightarrow> Inl e
           | Inr (fromDate, toDate) \<Rightarrow>
               (case server_limit applies limit
                       (filter (\<lambda>ex. Some (exercise_userId ex)
                                        = castObjectId (castsTwelve st) userId
                                      \<and> gte fromDate (exercise_date ex)
                                      \<and> lte toDate (exercise_date ex))
                          (exercises st)) of
                  Inl e \<Rightarrow> Inl e
                | Inr found \<Rightarrow>
                    (let log = map (logEntry tz) found
                     in Inr \<lparr>logs_id = user_id u, logs_username = user_username u,
                             logs_count = length log, logs_log = log\<rparr>))))"

section \<open>The router of the second source file\<close>

text \<open>
  Here a user document holds its own log. The \<open>User\<close> model of this router is required
  from another file: what its schema accepts on \<open>save\<close> is the parameter \<open>accepts\<close>
  (a document it refuses makes \<open>save\<close> reject). No handler has a \<open>try\<close>.
\<close>

record logged =
  logged_description :: string
  logged_duration :: number
  logged_date :: time

record member =
  member_id :: objectId
  member_username :: "string option"
  member_log :: "logged list"

definition router_createUser ::
  "(member list \<Rightarrow> member \<Rightarrow> bool) \<Rightarrow> objectId \<Rightarrow> member list \<Rightarrow> string option
     \<Rightarrow> member list \<times> (failure + (string option \<times> objectId))" where
  "router_createUser accepts newId ms username =
     (let newUser = \<lparr>member_id = newId, member_username = username, member_log = []\<rparr>
      in if accepts ms newUser
         then (ms @ [newUser], Inr (member_username newUser, member_id newUser))
         else (ms, Inl Unanswered))"

text \<open>A schema with no constraint, and one whose usernames are required and unique.\<close>

definition anyUser :: "member list \<Rightarrow> member \<Rightarrow> bool" where
  "anyUser ms m = True"

definition uniqueUser :: "member list \<Rightarrow> member \<Rightarrow> bool" where
  "uniqueUser ms m =
     (case member_username m of
        None \<Rightarrow> False
      | Some n \<Rightarrow> find (\<lambda>k. member_username k = Some n) ms = None)"

text \<open>
  \<open>log.slice(0, end)\<close>: \<open>NaN\<close> counts as 0 and a negative end counts from the end of
  the array.
\<close>

definition slice0 :: "'a list \<Rightarrow> number option \<Rightarrow> 'a list" where
  "slice0 xs e =
     (case e of
        None \<Rightarrow> []
      | Some (Num n) \<Rightarrow> take (nat (if n < 0 then int (length xs) + n else n)) xs
      | Some PlusInfinity \<Rightarrow> xs
      | Some MinusInfinity \<Rightarrow> [])"

text \<open>
  A comparison with an \<open>Invalid Date\<close> is false.
\<close>

definition dateGe :: "time \<Rightarrow> time option \<Rightarrow> bool" where
  "dateGe t bound = (case bound of None \<Rightarrow> False | Some b \<Rightarrow> b \<le> t)"

definition dateLe :: "time \<Rightarrow> time option \<Rightarrow> bool" where
  "dateLe t bound = (case bound of None \<Rightarrow> False | Some b \<Rightarrow> t \<le> b)"

definition loggedEntry :: "int \<Rightarrow> logged \<Rightarrow> log_entry" where
  "loggedEntry tz e =
     \<lparr>entry_description = logged_description e,
      entry_duration = jsonNumber (logged_duration e),
      entry_date = toDateString tz (logged_date e)\<rparr>"

text \<open>
  \<open>GET /:id/logs\<close>. With no user of that id, \<open>user.log\<close> throws and nothing is
  answered. \<open>twelve\<close> is as for the store.
\<close>

record member_log_json =
  mlogs_username :: "string option"
  mlogs_count :: nat
  mlogs_id :: objectId
  mlogs_log :: "log_entry list"

definition router_getLog ::
  "(string \<Rightarrow> time option) \<Rightarrow> int \<Rightarrow> bool \<Rightarrow> member list \<Rightarrow> string
     \<Rightarrow> string option \<Rightarrow> string option \<Rightarrow> string option
     \<Rightarrow> failure + member_log_json" where
  "router_getLog other tz twelve ms i from to limit =
     (case castObjectId twelve i of
        None \<Rightarrow> Inl Unanswered
      | Some oid \<Rightarrow>
          (case find (\<lambda>m. member_id m = oid) ms of
             None \<Rightarrow> Inl Unanswered
           | Some u \<Rightarrow>
               (let log0 = member_log u;
                    log1 = (if truthy from
                            then filter (\<lambda>ex. dateGe (logged_date ex) (newDate other (str from))) log0
                            else log0);
                    log2 = (if truthy to
                            then filter (\<lambda>ex. dateLe (logged_date ex) (newDate other (str to))) log1
                            else log1);
                    log3 = (if truthy limit then slice0 log2 (parseInt (str limit)) else log2)
                in Inr \<lparr>mlogs_username = member_username u,
                        mlogs_count = length log3,
                        mlogs_id = member_id u,
                        mlogs_log = map (loggedEntry tz) log3\<rparr>)))"

section \<open>The application of the second source file\<close>

text \<open>\<open>POST /api/users\<close>: as in server.js.\<close>

definition app_createUser ::
  "objectId \<Rightarrow> store \<Rightarrow> string option \<Rightarrow> store \<times> (failure + user_json)" where
  "app_createUser newId st username =
     (if falsy username then (st, Inl UsernameRequired)
      else (case find (\<lambda>u. user_username u = str username) (users st) of
              Some existingUser \<Rightarrow>
                (st, Inr \<lparr>created_username = user_username existingUser,
                          created_id = user_id existingUser\<rparr>)
            | None \<Rightarrow>
                (let savedUser = \<lparr>user_id = newId, user_username = str username\<rparr>
                 in (st\<lparr>users := users st @ [savedUser]\<rparr>,
                     Inr \<lparr>created_username = user_username savedUser,
                          created_id = user_id savedUser\<rparr>))))"

text \<open>
  \<open>POST /api/users/:_id/exercises\<close>: the user is looked up before the date and the
  duration are read; a date that is given and is not a date, and a duration that is not
  positive, end the request.
\<close>

definition app_addExercise ::
  "(string \<Rightarrow> time option) \<Rightarrow> int \<Rightarrow> time \<Rightarrow> objectId \<Rightarrow> store \<Rightarrow> string
     \<Rightarrow> string option \<Rightarrow> string option \<Rightarrow> string option
     \<Rightarrow> store \<times> (failure + exercise_json)" where
  "app_addExercise other tz now newId st userId description duration date =
     (if falsy description \<or> falsy duration then (st, Inl FieldsRequired)
      else (case findById st userId of
              Inl _ \<Rightarrow> (st, Inl InvalidUserId)
            | Inr None \<Rightarrow> (st, Inl UserNotFound)
            | Inr (Some u) \<Rightarrow>
                (if truthy date \<and> newDate other (str date) = None then (st, Inl InvalidDate)
                 else
                   (let exerciseDate =
                          (if truthy date
                           then (case newDate other (str date) of None \<Rightarrow> now | Some t \<Rightarrow> t)
                           else now)
                    in (case parseInt (str duration) of
                          None \<Rightarrow> (st, Inl DurationNotPositive)
                        | Some parsedDuration \<Rightarrow>
                            (if atMostZero parsedDuration then (st, Inl DurationNotPositive)
                             else
                               (let savedExercise =
                                      \<lparr>exercise_id = newId, exercise_userId = user_id u,
                                       exercise_description = str description,
                                       exercise_duration = parsedDuration,
                                       exercise_date = exerciseDate\<rparr>
                                in (st\<lparr>exercises := exercises st @ [savedExercise]\<rparr>,
                                    Inr \<lparr>added_id = user_id u,
                                         added_username = user_username u,
                                         added_description = exercise_description savedExercise,
                                         added_duration =
                                           jsonNumber (exercise_duration savedExercise),
                                         added_date =
                                           toDateString tz (exercise_date savedExercise)\<rparr>))))))))"

section \<open>Sample data\<close>

text \<open>
  One user, and seven exercises of hers at noon UTC of 2023-01-06 to 2023-01-12, in a
  store whose Mongoose casts hexadecimal ids only, and the same with a Mongoose that
  casts twelve characters too.
\<close>

definition aliceId :: string where
  "aliceId = ''0102030405060708090a0b0c''"

definition alice :: user where
  "alice = \<lparr>user_id = [1, 2, 3, 4, 5, 6, 7, 8, 9, 10, 11, 12], user_username = ''alice''\<rparr>"

definition noon :: "int \<Rightarrow> time" where
  "noon d = makeDay 2023 1 d * msPerDay + 43200000"

definition run :: "nat \<Rightarrow> int \<Rightarrow> exercise" where
  "run k d =
     \<lparr>exercise_id = [k], exercise_userId = user_id alice, exercise_description = ''run'',
      exercise_duration = Num 30, exercise_date = noon d\<rparr>"

definition store0 :: store where
  "store0 = \<lparr>users = [alice], exercises = [], castsTwelve = False\<rparr>"

definition store7 :: store where
  "store7 =
     \<lparr>users = [alice],
      exercises = [run 1 6, run 2 7, run 3 8, run 4 9, run 5 10, run 6 11, run 7 12],
      castsTwelve = False\<rparr>"

definition logged7 :: "logged list" where
  "logged7 =
     map (\<lambda>d. \<lparr>logged_description = ''run'', logged_duration = Num 30, logged_date = noon d\<rparr>)
       [6, 7, 8, 9, 10, 11, 12]"

definition members7 :: "member list" where
  "members7 =
     [\<lparr>member_id = user_id alice, member_username = Some ''alice'', member_log = logged7\<rparr>]"

text \<open>The same user with the exercise of the tenth only, and an id of no user.\<close>

definition store1 :: store where
  "store1 = \<lparr>users = [alice], exercises = [run 3 10], castsTwelve = False\<rparr>"


definition members1 :: "member list" where
  "members1 =
     [\<lparr>member_id = user_id alice, member_username = Some ''alice'',
       member_log = [\<lparr>logged_description = ''run'', logged_duration = Num 30,
                      logged_date = noon 10\<rparr>]\<rparr>]"

definition membersMidnight :: "member list" where
  "membersMidnight =
     [\<lparr>member_id = user_id alice, member_username = Some ''alice'',
       member_log = [\<lparr>logged_description = ''run'', logged_duration = Num 30,
                      logged_date = makeDay 2023 1 10 * msPerDay\<rparr>]\<rparr>]"


definition entry :: "string \<Rightarrow> log_entry" where
  "entry d = \<lparr>entry_description = ''run'', entry_duration = Some 30, entry_date = d\<rparr>"

definition entry10 :: log_entry where
  "entry10 = entry ''Tue Jan 10 2023''"

text \<open>A database that applies no limit above \<open>2^53\<close>, and one that applies them all.\<close>

definition refused :: "number \<Rightarrow> bool" where
  "refused v = False"

definition applied :: "number \<Rightarrow> bool" where
  "applied v = True"

text \<open>What is answered when "run" for 30 minutes is added at noon of 2023-01-10, UTC.\<close>

definition added0 :: exercise_json where
  "added0 =
     \<lparr>added_id = user_id alice, added_username = ''alice'', added_description = ''run'',
      added_duration = Some 30, added_date = ''Tue Jan 10 2023''\<rparr>"

section \<open>Facts about the primitives\<close>

lemma parseInt_Nil: "parseInt [] = None"
  by (simp add: parseInt_def)

lemma parseInt_Some_truthy: "parseInt l = Some n \<Longrightarrow> truthy (Some l)"
  by (auto simp: truthy_def falsy_def parseInt_Nil)

lemma falsy_None: "falsy None"
  by (simp add: falsy_def)

lemma not_truthy_None: "\<not> truthy None"
  by (simp add: truthy_def falsy_def)

lemma findById_Some:
  "findById st i = Inr (Some u) \<Longrightarrow> castObjectId (castsTwelve st) i = Some (user_id u)"
  by (auto simp: findById_def find_Some_iff split: option.splits)

lemma positive_Num: "positive (Num n) = (0 < n)"
  by (simp add: positive_def)

lemma atMostZero_positive: "atMostZero v = (\<not> positive v)"
  by (cases v) (auto simp: atMostZero_def positive_def)

lemma queryLimit_safe: "n \<le> 2 ^ 53 \<Longrightarrow> queryLimit applies (Num n) found = Inr (take (nat n) found)"
  by (simp add: queryLimit_def)

lemma queryLimit_map:
  "queryLimit applies v (map g xs) = map_sum id (map g) (queryLimit applies v xs)"
  by (cases v) (simp_all add: queryLimit_def take_map)

lemma queryLimit_subset: "queryLimit applies v xs = Inr found \<Longrightarrow> set found \<subseteq> set xs"
  by (cases v) (auto simp: queryLimit_def split: if_splits dest: in_set_takeD)

lemma server_limit_positive:
  "parseInt l = Some (Num n) \<Longrightarrow> 0 < n \<Longrightarrow> n \<le> 2 ^ 53
     \<Longrightarrow> server_limit applies (Some l) found = Inr (take (nat n) found)"
  by (auto simp: server_limit_def truthy_def falsy_def str_def parseInt_Nil positive_Num
        queryLimit_safe)

lemma server_limit_None: "server_limit applies None found = Inr found"
  by (simp add: server_limit_def not_truthy_None)

lemma server_limit_map:
  "server_limit applies limit (map g xs) = map_sum id (map g) (server_limit applies limit xs)"
  by (simp add: server_limit_def queryLimit_map split: option.splits)

lemma server_limit_subset:
  "server_limit applies limit xs = Inr found \<Longrightarrow> set found \<subseteq> set xs"
  by (auto simp: server_limit_def split: if_splits option.splits dest: queryLimit_subset)




lemma str_truthy: "str v \<noteq> [] \<Longrightarrow> truthy v"
  by (auto simp: str_def truthy_def falsy_def split: option.splits)

lemma parseInt_str_truthy: "parseInt (str v) = Some n \<Longrightarrow> truthy v"
  by (rule str_truthy) (auto simp: parseInt_Nil)

lemma slice0_positive: "0 < n \<Longrightarrow> slice0 xs (Some (Num n)) = take (nat n) xs"
  by (simp add: slice0_def)

subsection \<open>Numbers\<close>





subsection \<open>The calendar and the date string\<close>

lemma dayFromYear_1970: "dayFromYear 1970 = 0"
  by (simp add: dayFromYear_def)

lemma dayFromYear_after: "0 \<le> k \<Longrightarrow> dayFromYear (1970 + k) \<le> 366 * k"
proof (induction k rule: int_ge_induct)
  case base
  show ?case by (simp add: dayFromYear_1970)
next
  case (step i)
  have "dayFromYear (1970 + (i + 1)) = dayFromYear (1970 + i) + daysInYear (1970 + i)"
    using dayFromYear_succ[of "1970 + i"] by (simp add: add.assoc)
  with step daysInYear_bounds(2)[of "1970 + i"] show ?case by simp
qed

lemma dayFromYear_before: "k \<le> 0 \<Longrightarrow> dayFromYear (1970 + k) \<le> 365 * k"
proof (induction k rule: int_le_induct)
  case base
  show ?case by (simp add: dayFromYear_1970)
next
  case (step i)
  have "dayFromYear (1970 + i) = dayFromYear (1970 + (i - 1)) + daysInYear (1970 + (i - 1))"
    using dayFromYear_succ[of "1970 + (i - 1)"] by (simp add: add.assoc)
  with step daysInYear_bounds(1)[of "1970 + (i - 1)"] show ?case by simp
qed

lemma yearFrom_post:
  "dayFromYear y \<le> day \<Longrightarrow>
     dayFromYear (yearFrom day y) \<le> day \<and> day < dayFromYear (yearFrom day y + 1)"
proof (induction day y rule: yearFrom.induct)
  case (1 day y)
  show ?case
  proof (cases "dayFromYear (y + 1) \<le> day")
    case True
    with 1 show ?thesis by (subst (1 2) yearFrom.simps) simp
  next
    case False
    with 1 show ?thesis by (subst (1 2) yearFrom.simps) simp
  qed
qed

lemma yearFromDay_post:
  "dayFromYear (yearFromDay day) \<le> day \<and> day < dayFromYear (yearFromDay day + 1)"
proof -
  have "dayFromYear (1970 + (if 0 \<le> day then day div 366 else day div 365)) \<le> day"
  proof (cases "0 \<le> day")
    case True
    then have "0 \<le> day div 366" by simp
    from dayFromYear_after[OF this] have "dayFromYear (1970 + day div 366) \<le> 366 * (day div 366)" .
    also have "\<dots> \<le> day" by simp
    finally show ?thesis using True by simp
  next
    case False
    then have "day div 365 \<le> 0" by simp
    from dayFromYear_before[OF this] have "dayFromYear (1970 + day div 365) \<le> 365 * (day div 365)" .
    also have "\<dots> \<le> day" by simp
    finally show ?thesis using False by simp
  qed
  then show ?thesis
    unfolding yearFromDay_def by (rule yearFrom_post)
qed

lemma inLeapYear_cases: "inLeapYear y = 0 \<and> daysInYear y = 365 \<or> inLeapYear y = 1 \<and> daysInYear y = 366"
  by (simp add: inLeapYear_def daysInYear_def)

lemma dayWithinYear_range:
  "0 \<le> day - dayFromYear (yearFromDay day)
   \<and> day - dayFromYear (yearFromDay day) < 365 + inLeapYear (yearFromDay day)"
  using yearFromDay_post[of day] dayFromYear_succ[of "yearFromDay day"]
    inLeapYear_cases[of "yearFromDay day"]
  by auto

lemma monthFromDay_range: "0 \<le> monthFromDay leap d \<and> monthFromDay leap d < 12"
  by (simp add: monthFromDay_def)

lemma date_range:
  assumes "leap = 0 \<or> leap = 1" and "0 \<le> d" and "d < 365 + leap"
  shows "1 \<le> d - monthStart leap (monthFromDay leap d) + 1
       \<and> d - monthStart leap (monthFromDay leap d) + 1 \<le> 31"
  using assms by (auto simp: monthFromDay_def monthStart_def)

lemma digit_nth: "k < 10 \<Longrightarrow> isDigit (''0123456789'' ! nat k)"
  unfolding isDigit_def by (rule nth_mem) simp

lemma decimal_digits: "list_all isDigit (decimal n)"
proof (induction n rule: decimal.induct)
  case (1 n)
  show ?case
  proof (cases "n < 10")
    case True
    then show ?thesis by (subst decimal.simps) (simp add: digit_nth)
  next
    case False
    with 1 show ?thesis by (subst decimal.simps) (simp add: digit_nth)
  qed
qed

lemma decimal_length: "0 < length (decimal n)"
  by (subst decimal.simps) simp

lemma decimal_small: "n < 10 \<Longrightarrow> decimal n = [''0123456789'' ! nat n]"
  by (subst decimal.simps) simp

lemma decimal_length_100:
  assumes "n < 100"
  shows "length (decimal n) \<le> 2"
proof (cases "n < 10")
  case True
  then show ?thesis by (simp add: decimal_small)
next
  case False
  from assms have "n div 10 < 10" by simp
  with False show ?thesis
    by (subst decimal.simps) (simp add: decimal_small)
qed

lemma replicate_zero_digits: "list_all isDigit (replicate k (CHR ''0''))"
  by (simp add: list_all_iff isDigit_def)

lemma zeroPadded_digits: "list_all isDigit (zeroPadded n k)"
  by (simp add: zeroPadded_def Let_def decimal_digits replicate_zero_digits)

lemma zeroPadded_length: "k \<le> length (zeroPadded n k)"
  by (simp add: zeroPadded_def Let_def)

lemma zeroPadded_2: "n < 100 \<Longrightarrow> length (zeroPadded n 2) = 2"
  using decimal_length_100[of n] by (simp add: zeroPadded_def Let_def)

lemma weekday_name:
  "weekdayNames ! nat (w mod 7) \<in> set weekdayNames \<and> length (weekdayNames ! nat (w mod 7)) = 3"
proof -
  have "nat (w mod 7) < length weekdayNames"
    by (simp add: weekdayNames_def nat_less_iff)
  moreover have "\<forall>s \<in> set weekdayNames. length s = 3"
    by (simp add: weekdayNames_def)
  ultimately show ?thesis by (metis nth_mem)
qed

lemma month_name:
  assumes "0 \<le> m" "m < 12"
  shows "monthNames ! nat m \<in> set monthNames \<and> length (monthNames ! nat m) = 3"
proof -
  have "nat m < length monthNames"
    using assms by (simp add: monthNames_def nat_less_iff)
  moreover have "\<forall>s \<in> set monthNames. length s = 3"
    by (simp add: monthNames_def)
  ultimately show ?thesis by (metis nth_mem)
qed

lemma year_string: "isYearString ((if y < 0 then ''-'' else []) @ zeroPadded n 4)"
proof -
  have d: "list_all isDigit (zeroPadded n 4)" by (rule zeroPadded_digits)
  have l: "4 \<le> length (zeroPadded n 4)" by (rule zeroPadded_length)
  then obtain c cs where z: "zeroPadded n 4 = c # cs" by (cases "zeroPadded n 4") auto
  with d have "isDigit c" by simp
  then have "c \<noteq> CHR ''-''" by (auto simp: isDigit_def)
  with d l z show ?thesis by (auto simp: isYearString_def Let_def)
qed

lemma isDateString_intro:
  assumes "w \<in> set weekdayNames" "length w = 3" "m \<in> set monthNames" "length m = 3"
    "length d = 2" "list_all isDigit d" "isYearString y"
  shows "isDateString (w @ '' '' @ m @ '' '' @ d @ '' '' @ y)"
  using assms by (simp add: isDateString_def)

lemma dateString_shape: "isDateString (dateString day)"
proof -
  define y where "y = yearFromDay day"
  define dwy where "dwy = day - dayFromYear y"
  define m where "m = monthFromDay (inLeapYear y) dwy"
  define d where "d = dwy - monthStart (inLeapYear y) m + 1"
  have r: "0 \<le> dwy" "dwy < 365 + inLeapYear y"
    using dayWithinYear_range[of day] by (simp_all add: dwy_def y_def)
  have leap: "inLeapYear y = 0 \<or> inLeapYear y = 1"
    by (simp add: inLeapYear_def)
  have dr: "1 \<le> d" "d \<le> 31"
    using date_range[OF leap r] by (simp_all add: d_def m_def)
  have mr: "0 \<le> m" "m < 12"
    using monthFromDay_range[of "inLeapYear y" dwy] by (simp_all add: m_def)
  have "d < 100" using dr by simp
  then have d2: "length (zeroPadded d 2) = 2" by (rule zeroPadded_2)
  have "dateString day =
      weekdayNames ! nat ((day + 4) mod 7) @ '' '' @ monthNames ! nat m @ '' ''
         @ zeroPadded d 2 @ '' ''
         @ ((if y < 0 then ''-'' else []) @ zeroPadded \<bar>y\<bar> 4)"
    by (simp add: dateString_def Let_def y_def dwy_def m_def d_def)
  also have "isDateString \<dots>"
    by (intro isDateString_intro year_string zeroPadded_digits d2
          conjunct1[OF weekday_name] conjunct2[OF weekday_name]
          conjunct1[OF month_name[OF mr]] conjunct2[OF month_name[OF mr]])
  finally show ?thesis .
qed

lemma toDateString_shape: "isDateString (toDateString tz t)"
  by (simp add: toDateString_def dateString_shape)

subsection \<open>The date string of a calendar day\<close>

lemma dayFromYear_mono: "a \<le> b \<Longrightarrow> dayFromYear a \<le> dayFromYear b"
proof (induction b rule: int_ge_induct)
  case base
  show ?case by simp
next
  case (step i)
  with dayFromYear_succ[of i] daysInYear_bounds(1)[of i] show ?case by simp
qed

lemma yearFromDay_unique:
  assumes "dayFromYear y \<le> day" and "day < dayFromYear (y + 1)"
  shows "yearFromDay day = y"
proof (rule ccontr)
  assume n: "yearFromDay day \<noteq> y"
  note p = yearFromDay_post[of day]
  show False
  proof (cases "yearFromDay day < y")
    case True
    then have "dayFromYear (yearFromDay day + 1) \<le> dayFromYear y"
      by (intro dayFromYear_mono) simp
    with p assms(1) show False by simp
  next
    case False
    with n have "dayFromYear (y + 1) \<le> dayFromYear (yearFromDay day)"
      by (intro dayFromYear_mono) simp
    with p assms(2) show False by simp
  qed
qed

lemma monthStart_values:
  "monthStart l 0 = 0" "monthStart l 1 = 31" "monthStart l 2 = 59 + l"
  "monthStart l 3 = 90 + l" "monthStart l 4 = 120 + l" "monthStart l 5 = 151 + l"
  "monthStart l 6 = 181 + l" "monthStart l 7 = 212 + l" "monthStart l 8 = 243 + l"
  "monthStart l 9 = 273 + l" "monthStart l 10 = 304 + l" "monthStart l 11 = 334 + l"
  by (simp_all add: monthStart_def)

lemma day_in_year:
  assumes "1 \<le> m" "m \<le> 12" "1 \<le> d" "d \<le> daysInMonth y m"
  shows "0 \<le> monthStart (inLeapYear y) (m - 1) + d - 1"
    and "monthStart (inLeapYear y) (m - 1) + d - 1 < 365 + inLeapYear y"
    and "monthFromDay (inLeapYear y) (monthStart (inLeapYear y) (m - 1) + d - 1) = m - 1"
proof -
  have leap: "inLeapYear y = 0 \<or> inLeapYear y = 1"
    by (simp add: inLeapYear_def)
  from assms(1,2) have m: "m = 1 \<or> m = 2 \<or> m = 3 \<or> m = 4 \<or> m = 5 \<or> m = 6
      \<or> m = 7 \<or> m = 8 \<or> m = 9 \<or> m = 10 \<or> m = 11 \<or> m = 12"
    by arith
  show "0 \<le> monthStart (inLeapYear y) (m - 1) + d - 1"
    using m leap assms(3) by (elim disjE) (simp_all add: monthStart_values)
  show "monthStart (inLeapYear y) (m - 1) + d - 1 < 365 + inLeapYear y"
    using m leap assms(4) by (elim disjE) (simp_all add: monthStart_values daysInMonth_def)
  show "monthFromDay (inLeapYear y) (monthStart (inLeapYear y) (m - 1) + d - 1) = m - 1"
    using m leap assms(3,4)
    by (elim disjE) (simp_all add: monthStart_values daysInMonth_def monthFromDay_def)
qed

lemma yearFromDay_makeDay:
  assumes "1 \<le> m" "m \<le> 12" "1 \<le> d" "d \<le> daysInMonth y m"
  shows "yearFromDay (makeDay y m d) = y"
proof (rule yearFromDay_unique)
  show "dayFromYear y \<le> makeDay y m d"
    using day_in_year(1)[OF assms] by (simp add: makeDay_def)
  have "daysInYear y = 365 + inLeapYear y"
    by (simp add: inLeapYear_def daysInYear_def)
  then show "makeDay y m d < dayFromYear (y + 1)"
    using day_in_year(2)[OF assms] by (simp add: makeDay_def dayFromYear_succ)
qed

text \<open>
  The date string of the day \<open>d\<close> of the month \<open>m\<close> of the year \<open>y\<close> names that
  month, day and year, and the weekday of the day number.
\<close>

lemma dateString_makeDay:
  assumes "1 \<le> m" "m \<le> 12" "1 \<le> d" "d \<le> daysInMonth y m"
  shows "dateString (makeDay y m d) =
           weekdayNames ! nat ((makeDay y m d + 4) mod 7) @ '' '' @ monthNames ! nat (m - 1)
           @ '' '' @ zeroPadded d 2 @ '' ''
           @ (if y < 0 then ''-'' else []) @ zeroPadded \<bar>y\<bar> 4"
proof -
  have k: "makeDay y m d - dayFromYear y = monthStart (inLeapYear y) (m - 1) + d - 1"
    by (simp add: makeDay_def)
  show ?thesis
    unfolding dateString_def Let_def yearFromDay_makeDay[OF assms] k day_in_year(3)[OF assms]
    by simp
qed

lemma day_of_month_range:
  assumes "0 \<le> k" "k < 365 + inLeapYear y"
  shows "1 \<le> k - monthStart (inLeapYear y) (monthFromDay (inLeapYear y) k) + 1"
    and "k - monthStart (inLeapYear y) (monthFromDay (inLeapYear y) k) + 1
           \<le> daysInMonth y (monthFromDay (inLeapYear y) k + 1)"
proof -
  have leap: "inLeapYear y = 0 \<or> inLeapYear y = 1"
    by (simp add: inLeapYear_def)
  show "1 \<le> k - monthStart (inLeapYear y) (monthFromDay (inLeapYear y) k) + 1"
    using date_range[OF leap assms] by simp
  show "k - monthStart (inLeapYear y) (monthFromDay (inLeapYear y) k) + 1
           \<le> daysInMonth y (monthFromDay (inLeapYear y) k + 1)"
    using leap assms
    by (elim disjE) (simp_all add: monthFromDay_def monthStart_values daysInMonth_def)
qed

text \<open>Every day number is a day of a month of a year.\<close>

lemma calendar_day_exists:
  "\<exists>y m d. 1 \<le> m \<and> m \<le> 12 \<and> 1 \<le> d \<and> d \<le> daysInMonth y m \<and> day = makeDay y m d"
proof -
  define y where "y = yearFromDay day"
  define k where "k = day - dayFromYear y"
  define m where "m = monthFromDay (inLeapYear y) k + 1"
  define d where "d = k - monthStart (inLeapYear y) (m - 1) + 1"
  have k: "0 \<le> k" "k < 365 + inLeapYear y"
    using dayWithinYear_range[of day] by (simp_all add: k_def y_def)
  have m: "1 \<le> m" "m \<le> 12"
    using monthFromDay_range[of "inLeapYear y" k] by (simp_all add: m_def)
  have d: "1 \<le> d" "d \<le> daysInMonth y m"
    using day_of_month_range[OF k] by (simp_all add: d_def m_def)
  have "day = makeDay y m d"
    by (simp add: makeDay_def d_def k_def)
  with m d show ?thesis by blast
qed

section \<open>The log query\<close>

lemma queryLimit_applied:
  "n \<le> 2 ^ 53 \<or> applies (Num n) \<Longrightarrow> queryLimit applies (Num n) found = Inr (take (nat n) found)"
  by (auto simp: queryLimit_def)

lemma router_filters:
  "(if truthy to
    then filter (\<lambda>ex. dateLe (logged_date ex) (newDate other (str to)))
           (if truthy from
            then filter (\<lambda>ex. dateGe (logged_date ex) (newDate other (str from))) xs
            else xs)
    else (if truthy from
          then filter (\<lambda>ex. dateGe (logged_date ex) (newDate other (str from))) xs
          else xs))
   = filter (\<lambda>ex. (falsy from \<or> dateGe (logged_date ex) (newDate other (str from)))
                  \<and> (falsy to \<or> dateLe (logged_date ex) (newDate other (str to)))) xs"
  by (simp add: truthy_def)

text \<open>
  Claim C2. With a limit that \<open>parseInt\<close> reads as a positive integer \<open>n\<close>, the log
  returned for an existing user is the first \<open>n\<close> entries of the date-filtered result,
  in the order of the store, and \<open>count\<close> is the length of the log that is returned.
  In server.js the result is that of the query limited to \<open>n\<close>, over the exercises of
  the user within the bounds of the date filter, for a limit up to \<open>2^53\<close> and for any
  larger one that the database applies. In the router it is the front of the user's log
  filtered by the two bounds as they are given, which is also the front of the log
  returned without a limit.
\<close>

theorem getLog_limit_takes_front_of_filtered:
  assumes "findById st userId = Inr (Some u)"
    and "server_dateFilter other tz from to = Inr (fromDate, toDate)"
    and "castObjectId twelve i = Some oid"
    and "find (\<lambda>m. member_id m = oid) ms = Some k"
    and "parseInt l = Some (Num n)" and "0 < n"
    and "n \<le> 2 ^ 53 \<or> applies (Num n)"
  shows "(\<exists>r. server_getLog applies other tz st userId from to (Some l) = Inr r
            \<and> logs_log r =
                take (nat n)
                  (map (logEntry tz)
                     (filter (\<lambda>ex. exercise_userId ex = user_id u
                                    \<and> gte fromDate (exercise_date ex)
                                    \<and> lte toDate (exercise_date ex))
                        (exercises st)))
            \<and> logs_count r = length (logs_log r))
       \<and> (\<exists>r0 r. router_getLog other tz twelve ms i from to None = Inr r0
            \<and> router_getLog other tz twelve ms i from to (Some l) = Inr r
            \<and> mlogs_log r0 =
                map (loggedEntry tz)
                  (filter (\<lambda>ex. (falsy from
                                    \<or> dateGe (logged_date ex) (newDate other (str from)))
                                 \<and> (falsy to
                                    \<or> dateLe (logged_date ex) (newDate other (str to))))
                     (member_log k))
            \<and> mlogs_log r = take (nat n) (mlogs_log r0)
            \<and> mlogs_count r = length (mlogs_log r))"
proof -
  have c: "castObjectId (castsTwelve st) userId = Some (user_id u)"
    using assms(1) by (rule findById_Some)
  have p: "positive (Num n)"
    using assms(6) by (simp add: positive_Num)
  have t: "truthy (Some l)" using assms(5) by (rule parseInt_Some_truthy)
  have lim: "server_limit applies (Some l) found = Inr (take (nat n) found)" for found
    by (simp add: server_limit_def t str_def assms(5) p queryLimit_applied[of n applies, OF assms(7)])
  have server: "server_getLog applies other tz st userId from to (Some l) =
      Inr \<lparr>logs_id = user_id u, logs_username = user_username u,
           logs_count = length (map (logEntry tz) (take (nat n)
              (filter (\<lambda>ex. exercise_userId ex = user_id u
                                    \<and> gte fromDate (exercise_date ex)
                                    \<and> lte toDate (exercise_date ex)) (exercises st)))),
           logs_log = map (logEntry tz) (take (nat n)
              (filter (\<lambda>ex. exercise_userId ex = user_id u
                                    \<and> gte fromDate (exercise_date ex)
                                    \<and> lte toDate (exercise_date ex)) (exercises st)))\<rparr>"
    by (simp add: server_getLog_def c assms(1,2) lim Let_def)
  have router0: "router_getLog other tz twelve ms i from to None =
      Inr \<lparr>mlogs_username = member_username k,
           mlogs_count = length (filter (\<lambda>ex. (falsy from
                                    \<or> dateGe (logged_date ex) (newDate other (str from)))
                                 \<and> (falsy to
                                    \<or> dateLe (logged_date ex) (newDate other (str to))))
                     (member_log k)),
           mlogs_id = member_id k,
           mlogs_log = map (loggedEntry tz) (filter (\<lambda>ex. (falsy from
                                    \<or> dateGe (logged_date ex) (newDate other (str from)))
                                 \<and> (falsy to
                                    \<or> dateLe (logged_date ex) (newDate other (str to))))
                     (member_log k))\<rparr>"
    unfolding router_getLog_def Let_def router_filters
    by (simp add: assms(3,4) not_truthy_None)
  have router: "router_getLog other tz twelve ms i from to (Some l) =
      Inr \<lparr>mlogs_username = member_username k,
           mlogs_count = length (take (nat n) (filter (\<lambda>ex. (falsy from
                                    \<or> dateGe (logged_date ex) (newDate other (str from)))
                                 \<and> (falsy to
                                    \<or> dateLe (logged_date ex) (newDate other (str to))))
                     (member_log k))),
           mlogs_id = member_id k,
           mlogs_log = map (loggedEntry tz) (take (nat n) (filter (\<lambda>ex. (falsy from
                                    \<or> dateGe (logged_date ex) (newDate other (str from)))
                                 \<and> (falsy to
                                    \<or> dateLe (logged_date ex) (newDate other (str to))))
                     (member_log k)))\<rparr>"
    unfolding router_getLog_def Let_def router_filters
    by (simp add: assms(3,4) t str_def assms(5) slice0_positive[OF assms(6)])
  show ?thesis
    unfolding server router0 router by (simp add: take_map)
qed

text \<open>
  The theorem at a limit of 2 over seven exercises, one a day at noon from 2023-01-06
  to 2023-01-12, with \<open>from = 2023-01-08\<close>: the bound leaves out the first two, five
  match, the log is the exercises of the eighth and the ninth, and \<open>count\<close> is 2.
\<close>

theorem getLog_limit_takes_front_of_filtered_witness:
  "((\<exists>r. server_getLog refused isoOnly 0 store7 aliceId (Some ''2023-01-08'') None (Some ''2'') = Inr r
        \<and> logs_log r =
            take (nat 2)
              (map (logEntry 0)
                 (filter (\<lambda>ex. exercise_userId ex = user_id alice
                                \<and> gte (Some 1673136000000) (exercise_date ex)
                                \<and> lte None (exercise_date ex))
                    (exercises store7)))
        \<and> logs_count r = length (logs_log r))
    \<and> (\<exists>r0 r. router_getLog isoOnly 0 False members7 aliceId (Some ''2023-01-08'') None None = Inr r0
        \<and> router_getLog isoOnly 0 False members7 aliceId (Some ''2023-01-08'') None (Some ''2'') = Inr r
        \<and> mlogs_log r0 =
            map (loggedEntry 0)
              (filter (\<lambda>ex. (falsy (Some ''2023-01-08'')
                               \<or> dateGe (logged_date ex) (newDate isoOnly (str (Some ''2023-01-08''))))
                             \<and> (falsy None \<or> dateLe (logged_date ex) (newDate isoOnly (str None))))
                 (member_log (hd members7)))
        \<and> mlogs_log r = take (nat 2) (mlogs_log r0)
        \<and> mlogs_count r = length (mlogs_log r)))
   \<and> length (exercises store7) = 7
   \<and> map (logEntry 0)
        (filter (\<lambda>ex. exercise_userId ex = user_id alice
                       \<and> gte (Some 1673136000000) (exercise_date ex)
                       \<and> lte None (exercise_date ex))
           (exercises store7))
       = [entry ''Sun Jan 08 2023'', entry ''Mon Jan 09 2023'', entry ''Tue Jan 10 2023'',
          entry ''Wed Jan 11 2023'', entry ''Thu Jan 12 2023'']
   \<and> server_getLog refused isoOnly 0 store7 aliceId (Some ''2023-01-08'') None (Some ''2'') =
       Inr \<lparr>logs_id = user_id alice, logs_username = ''alice'', logs_count = 2,
            logs_log = [entry ''Sun Jan 08 2023'', entry ''Mon Jan 09 2023'']\<rparr>
   \<and> router_getLog isoOnly 0 False members7 aliceId (Some ''2023-01-08'') None None =
       Inr \<lparr>mlogs_username = Some ''alice'', mlogs_count = 5, mlogs_id = user_id alice,
            mlogs_log = [entry ''Sun Jan 08 2023'', entry ''Mon Jan 09 2023'',
                         entry ''Tue Jan 10 2023'', entry ''Wed Jan 11 2023'',
                         entry ''Thu Jan 12 2023'']\<rparr>
   \<and> router_getLog isoOnly 0 False members7 aliceId (Some ''2023-01-08'') None (Some ''2'') =
       Inr \<lparr>mlogs_username = Some ''alice'', mlogs_count = 2, mlogs_id = user_id alice,
            mlogs_log = [entry ''Sun Jan 08 2023'', entry ''Mon Jan 09 2023'']\<rparr>"
proof -
  have 1: "findById store7 aliceId = Inr (Some alice)"
    by code_simp
  have 2: "server_dateFilter isoOnly 0 (Some ''2023-01-08'') None = Inr (Some 1673136000000, None)"
    by code_simp
  have 3: "castObjectId False aliceId = Some (user_id alice)"
    by code_simp
  have 4: "find (\<lambda>m. member_id m = user_id alice) members7 = Some (hd members7)"
    by code_simp
  have 5: "parseInt ''2'' = Some (Num 2)"
    by code_simp
  have 6: "(0::int) < 2"
    by simp
  have 7: "(2::int) \<le> 2 ^ 53 \<or> refused (Num 2)"
    by simp
  have seven: "length (exercises store7) = 7"
    by code_simp
  have five: "map (logEntry 0)
        (filter (\<lambda>ex. exercise_userId ex = user_id alice
                       \<and> gte (Some 1673136000000) (exercise_date ex)
                       \<and> lte None (exercise_date ex))
           (exercises store7))
       = [entry ''Sun Jan 08 2023'', entry ''Mon Jan 09 2023'', entry ''Tue Jan 10 2023'',
          entry ''Wed Jan 11 2023'', entry ''Thu Jan 12 2023'']"
    by code_simp
  have out: "server_getLog refused isoOnly 0 store7 aliceId (Some ''2023-01-08'') None (Some ''2'') =
       Inr \<lparr>logs_id = user_id alice, logs_username = ''alice'', logs_count = 2,
            logs_log = [entry ''Sun Jan 08 2023'', entry ''Mon Jan 09 2023'']\<rparr>"
    by code_simp
  have r0: "router_getLog isoOnly 0 False members7 aliceId (Some ''2023-01-08'') None None =
       Inr \<lparr>mlogs_username = Some ''alice'', mlogs_count = 5, mlogs_id = user_id alice,
            mlogs_log = [entry ''Sun Jan 08 2023'', entry ''Mon Jan 09 2023'',
                         entry ''Tue Jan 10 2023'', entry ''Wed Jan 11 2023'',
                         entry ''Thu Jan 12 2023'']\<rparr>"
    by code_simp
  have r: "router_getLog isoOnly 0 False members7 aliceId (Some ''2023-01-08'') None (Some ''2'') =
       Inr \<lparr>mlogs_username = Some ''alice'', mlogs_count = 2, mlogs_id = user_id alice,
            mlogs_log = [entry ''Sun Jan 08 2023'', entry ''Mon Jan 09 2023'']\<rparr>"
    by code_simp
  show ?thesis
    by (rule conjI [OF getLog_limit_takes_front_of_filtered [where applies = refused, OF 1 2 3 4 5 6 7]
          conjI [OF seven conjI [OF five conjI [OF out conjI [OF r0 r]]]]])
qed

section \<open>Adding an exercise and reading it back\<close>


lemma server_addExercise_ok:
  assumes "findById st userId = Inr (Some u)"
    and "truthy description" and "parseInt (str duration) = Some n"
  shows "server_addExercise other tz now newId st userId description duration date =
      (let dateObj = (if truthy date \<and> trim (str date) \<noteq> []
                        then (case newDate other (str date) of None \<Rightarrow> now | Some t \<Rightarrow> t)
                        else now)
       in (st\<lparr>exercises := exercises st @
                 [\<lparr>exercise_id = newId, exercise_userId = user_id u,
                   exercise_description = str description, exercise_duration = n,
                   exercise_date = dateObj\<rparr>]\<rparr>,
           Inr \<lparr>added_id = user_id u, added_username = user_username u,
                added_description = str description, added_duration = jsonNumber n,
                added_date = toDateString tz dateObj\<rparr>))"
  using assms(2) parseInt_str_truthy[OF assms(3)]
  by (simp add: server_addExercise_def assms(1,3) truthy_def Let_def)



section \<open>What the answers carry\<close>

lemma logEntry_id_update: "logEntry tz (exercise_id_update f ex) = logEntry tz ex"
  by (simp add: logEntry_def)

lemma findById_exercises_update: "findById (st\<lparr>exercises := e\<rparr>) userId = findById st userId"
  by (simp add: findById_def cong: option.case_cong)

lemma server_getLog_ids:
  "server_getLog applies other tz (st\<lparr>exercises := map (exercise_id_update f) (exercises st)\<rparr>)
       userId from to limit
     = server_getLog applies other tz st userId from to limit"
  by (simp add: server_getLog_def findById_exercises_update filter_map o_def server_limit_map
        logEntry_id_update Let_def
        split: sum.splits option.splits prod.splits)

lemma server_addExercise_Inr:
  "server_addExercise other tz now newId st userId description duration date = (st', Inr a)
     \<Longrightarrow> \<exists>u. findById st userId = Inr (Some u) \<and> added_id a = user_id u"
  by (auto simp: server_addExercise_def Let_def split: if_splits option.splits sum.splits)

lemma app_addExercise_Inr:
  "app_addExercise other tz now newId st userId description duration date = (st', Inr a)
     \<Longrightarrow> \<exists>u. findById st userId = Inr (Some u) \<and> added_id a = user_id u"
  by (auto simp: app_addExercise_def Let_def split: if_splits option.splits sum.splits)

lemma server_addExercise_newId:
  "snd (server_addExercise other tz now newId st userId description duration date)
     = snd (server_addExercise other tz now newId' st userId description duration date)"
  by (simp add: server_addExercise_def Let_def split: option.splits sum.splits)

lemma app_addExercise_newId:
  "snd (app_addExercise other tz now newId st userId description duration date)
     = snd (app_addExercise other tz now newId' st userId description duration date)"
  by (simp add: app_addExercise_def Let_def split: option.splits sum.splits)

lemma server_getLog_entries:
  assumes "server_getLog applies other tz st userId from to limit = Inr r"
  shows "\<exists>found. set found \<subseteq> set (exercises st) \<and> logs_log r = map (logEntry tz) found"
proof -
  from assms obtain found P where
    l: "server_limit applies limit (filter P (exercises st)) = Inr found"
    and r: "logs_log r = map (logEntry tz) found"
    by (fastforce simp: server_getLog_def Let_def split: sum.splits option.splits prod.splits)
  from server_limit_subset[OF l] have "set found \<subseteq> set (exercises st)" by auto
  with r show ?thesis by auto
qed

text \<open>
  Claim C10. The \<open>_id\<close> of a successful answer of \<open>addExercise\<close> (server.js and the
  application of the second file) is the id of the user that \<open>findById\<close> found, and
  the answer is the same whatever id the new exercise document gets. Every entry of a
  log of \<open>getLog\<close> is made of the description, the duration and the date of a stored
  exercise and of nothing else (an entry has no other field), and the answer of
  \<open>getLog\<close> does not change when the ids of the exercise documents are changed.
\<close>

theorem responses_carry_the_user_id_only:
  "(\<forall>st' a. server_addExercise other tz now newId st userId description duration date = (st', Inr a)
        \<longrightarrow> (\<exists>u. findById st userId = Inr (Some u) \<and> added_id a = user_id u))
   \<and> (\<forall>st' a. app_addExercise other tz now newId st userId description duration date = (st', Inr a)
        \<longrightarrow> (\<exists>u. findById st userId = Inr (Some u) \<and> added_id a = user_id u))
   \<and> snd (server_addExercise other tz now newId st userId description duration date)
       = snd (server_addExercise other tz now newId' st userId description duration date)
   \<and> snd (app_addExercise other tz now newId st userId description duration date)
       = snd (app_addExercise other tz now newId' st userId description duration date)
   \<and> (\<forall>r. server_getLog applies other tz st userId from to limit = Inr r
        \<longrightarrow> (\<exists>found. set found \<subseteq> set (exercises st)
               \<and> logs_log r =
                   map (\<lambda>ex. \<lparr>entry_description = exercise_description ex,
                               entry_duration = jsonNumber (exercise_duration ex),
                               entry_date = toDateString tz (exercise_date ex)\<rparr>) found))
   \<and> server_getLog applies other tz (st\<lparr>exercises := map (exercise_id_update f) (exercises st)\<rparr>)
         userId from to limit
       = server_getLog applies other tz st userId from to limit"
proof (intro conjI allI impI)
  fix st' a
  assume "server_addExercise other tz now newId st userId description duration date = (st', Inr a)"
  then show "\<exists>u. findById st userId = Inr (Some u) \<and> added_id a = user_id u"
    by (rule server_addExercise_Inr)
next
  fix st' a
  assume "app_addExercise other tz now newId st userId description duration date = (st', Inr a)"
  then show "\<exists>u. findById st userId = Inr (Some u) \<and> added_id a = user_id u"
    by (rule app_addExercise_Inr)
next
  show "snd (server_addExercise other tz now newId st userId description duration date)
       = snd (server_addExercise other tz now newId' st userId description duration date)"
    by (rule server_addExercise_newId)
next
  show "snd (app_addExercise other tz now newId st userId description duration date)
       = snd (app_addExercise other tz now newId' st userId description duration date)"
    by (rule app_addExercise_newId)
next
  fix r
  assume "server_getLog applies other tz st userId from to limit = Inr r"
  from server_getLog_entries[OF this]
  show "\<exists>found. set found \<subseteq> set (exercises st)
               \<and> logs_log r =
                   map (\<lambda>ex. \<lparr>entry_description = exercise_description ex,
                               entry_duration = jsonNumber (exercise_duration ex),
                               entry_date = toDateString tz (exercise_date ex)\<rparr>) found"
    unfolding logEntry_def .
next
  show "server_getLog applies other tz (st\<lparr>exercises := map (exercise_id_update f) (exercises st)\<rparr>)
         userId from to limit
       = server_getLog applies other tz st userId from to limit"
    by (rule server_getLog_ids)
qed

text \<open>
  The theorem at a run added for the sample user: both handlers answer with her id,
  and server.js answers the same when the exercise document gets another id.
\<close>

theorem responses_carry_the_user_id_only_witness:
  "snd (server_addExercise isoOnly 0 (noon 10) [77] store0 aliceId (Some ''run'') (Some ''30'') None)
       = Inr added0
   \<and> snd (app_addExercise isoOnly 0 (noon 10) [77] store0 aliceId (Some ''run'') (Some ''30'') None)
       = Inr added0
   \<and> (\<exists>u. findById store0 aliceId = Inr (Some u) \<and> added_id added0 = user_id u)
   \<and> snd (server_addExercise isoOnly 0 (noon 10) [78] store0 aliceId (Some ''run'') (Some ''30'') None)
       = Inr added0"
proof -
  have s: "server_addExercise isoOnly 0 (noon 10) [77] store0 aliceId (Some ''run'') (Some ''30'') None
      = (store0\<lparr>exercises := [run 77 10]\<rparr>, Inr added0)"
    by code_simp
  have a: "app_addExercise isoOnly 0 (noon 10) [77] store0 aliceId (Some ''run'') (Some ''30'') None
      = (store0\<lparr>exercises := [run 77 10]\<rparr>, Inr added0)"
    by code_simp
  note t = responses_carry_the_user_id_only [where other = isoOnly and tz = 0
      and now = "noon 10" and newId = "[77]" and st = store0 and userId = aliceId
      and description = "Some ''run''" and duration = "Some ''30''" and date = None
      and newId' = "[78]" and applies = refused and ?from = None and to = None
      and limit = None and f = id]
  from t s have 1: "\<exists>u. findById store0 aliceId = Inr (Some u) \<and> added_id added0 = user_id u"
    by blast
  from t have "snd (server_addExercise isoOnly 0 (noon 10) [77] store0 aliceId (Some ''run'') (Some ''30'') None)
       = snd (server_addExercise isoOnly 0 (noon 10) [78] store0 aliceId (Some ''run'') (Some ''30'') None)"
    by blast
  with s have 2: "snd (server_addExercise isoOnly 0 (noon 10) [78] store0 aliceId (Some ''run'') (Some ''30'') None)
       = Inr added0" by simp
  from s a 1 2 show ?thesis by simp
qed

section \<open>Where the variants differ\<close>

text \<open>
  What server.js does with the bounds: an exercise passes \<open>from\<close> when it is dated at
  or after the instant \<open>from\<close> parses to, and passes \<open>to\<close> when its local day is the
  local day of the instant \<open>to\<close> parses to, or an earlier one. Each bound that is absent
  or empty passes everything.
\<close>

lemma le_end_of_block:
  fixes a d :: int
  shows "a \<le> d * 86400000 + 86399999 \<longleftrightarrow> a div 86400000 \<le> d"
proof -
  define q where "q = a div 86400000"
  define r where "r = a mod 86400000"
  have a: "a = 86400000 * q + r" by (simp add: q_def r_def)
  have r: "0 \<le> r" "r < 86400000" by (simp_all add: r_def)
  have "a \<le> d * 86400000 + 86399999 \<longleftrightarrow> q \<le> d"
    using a r by auto
  then show ?thesis by (simp add: q_def)
qed

lemma lte_end_of_day:
  "lte (Some (setHoursEndOfDay tz t)) x
     \<longleftrightarrow> localTime tz x div msPerDay \<le> localTime tz t div msPerDay"
proof -
  have "x \<le> (localTime tz t div 86400000) * 86400000 + 86399999 - tz * 60000
        \<longleftrightarrow> localTime tz x \<le> (localTime tz t div 86400000) * 86400000 + 86399999"
    by (auto simp: localTime_def)
  also have "\<dots> \<longleftrightarrow> localTime tz x div 86400000 \<le> localTime tz t div 86400000"
    by (rule le_end_of_block)
  finally show ?thesis
    by (simp add: lte_def setHoursEndOfDay_def msPerDay_def)
qed

lemma server_dateFilter_bounds:
  assumes "server_dateFilter other tz from to = Inr (lo, hi)"
  shows "gte lo x \<longleftrightarrow> falsy from \<or> (\<exists>a. newDate other (str from) = Some a \<and> a \<le> x)"
    and "lte hi x \<longleftrightarrow>
           falsy to \<or> (\<exists>b. newDate other (str to) = Some b
                          \<and> localTime tz x div msPerDay \<le> localTime tz b div msPerDay)"
proof -
  from assms have lo: "lo = (if truthy from then newDate other (str from) else None)"
    and hi: "hi = (if truthy to then map_option (setHoursEndOfDay tz) (newDate other (str to))
                   else None)"
    and f: "falsy from \<or> newDate other (str from) \<noteq> None"
    and t: "falsy to \<or> newDate other (str to) \<noteq> None"
    by (auto simp: server_dateFilter_def truthy_def split: if_splits)
  show "gte lo x \<longleftrightarrow> falsy from \<or> (\<exists>a. newDate other (str from) = Some a \<and> a \<le> x)"
    using f by (auto simp: lo gte_def truthy_def)
  show "lte hi x \<longleftrightarrow>
           falsy to \<or> (\<exists>b. newDate other (str to) = Some b
                          \<and> localTime tz x div msPerDay \<le> localTime tz b div msPerDay)"
  proof (cases "falsy to")
    case True
    then show ?thesis by (simp add: hi truthy_def lte_def)
  next
    case False
    with t obtain b where b: "newDate other (str to) = Some b" by auto
    with False show ?thesis
      by (simp add: hi truthy_def lte_end_of_day)
  qed
qed

text \<open>
  Claim C1. The router compares the \<open>to\<close> bound as it is parsed, at midnight UTC: for
  a user whose only exercise is dated 2023-01-10 at noon UTC, \<open>getLog\<close> with
  \<open>to = 2023-01-10\<close>, and with \<open>from\<close> and \<open>to\<close> both \<open>2023-01-10\<close>, returns an
  empty log; an exercise dated at midnight of that day is returned. server.js moves the
  bound to the end of its local day: at UTC it returns the exercise of noon for the same
  query, and five hours west of Greenwich, where the bound is the end of the ninth, it
  does not.
\<close>

theorem router_to_bound_is_midnight:
  "router_getLog isoOnly 0 False members1 aliceId None (Some ''2023-01-10'') None
     = Inr \<lparr>mlogs_username = Some ''alice'', mlogs_count = 0, mlogs_id = user_id alice,
            mlogs_log = []\<rparr>
   \<and> router_getLog isoOnly 0 False members1 aliceId (Some ''2023-01-10'') (Some ''2023-01-10'') None
     = Inr \<lparr>mlogs_username = Some ''alice'', mlogs_count = 0, mlogs_id = user_id alice,
            mlogs_log = []\<rparr>
   \<and> router_getLog isoOnly 0 False membersMidnight aliceId (Some ''2023-01-10'') (Some ''2023-01-10'')
         None
     = Inr \<lparr>mlogs_username = Some ''alice'', mlogs_count = 1, mlogs_id = user_id alice,
            mlogs_log = [entry10]\<rparr>
   \<and> server_getLog refused isoOnly 0 store1 aliceId (Some ''2023-01-10'') (Some ''2023-01-10'') None
     = Inr \<lparr>logs_id = user_id alice, logs_username = ''alice'', logs_count = 1,
            logs_log = [entry10]\<rparr>
   \<and> server_getLog refused isoOnly (- 300) store1 aliceId None (Some ''2023-01-10'') None
     = Inr \<lparr>logs_id = user_id alice, logs_username = ''alice'', logs_count = 0, logs_log = []\<rparr>
   \<and> logEntry (- 300) (run 3 10) = entry10"
  by code_simp

text \<open>
  Claim C4. server.js checks that the duration is a number and not that it is positive:
  a duration of \<open>-1\<close> is stored and answered. The application of the second file
  refuses it with status 400. A duration of 30 succeeds.
\<close>

theorem server_addExercise_negative_duration:
  "server_addExercise isoOnly 0 (noon 10) [77] store0 aliceId (Some ''run'') (Some ''-1'') None
     = (store0\<lparr>exercises :=
          [\<lparr>exercise_id = [77], exercise_userId = user_id alice, exercise_description = ''run'',
            exercise_duration = Num (- 1), exercise_date = noon 10\<rparr>]\<rparr>,
        Inr \<lparr>added_id = user_id alice, added_username = ''alice'', added_description = ''run'',
             added_duration = Some (- 1), added_date = ''Tue Jan 10 2023''\<rparr>)
   \<and> app_addExercise isoOnly 0 (noon 10) [77] store0 aliceId (Some ''run'') (Some ''-1'') None
     = (store0, Inl DurationNotPositive)
   \<and> status DurationNotPositive = Some 400
   \<and> snd (server_addExercise isoOnly 0 (noon 10) [77] store0 aliceId (Some ''run'') (Some ''30'') None)
     = Inr added0"
  by code_simp

text \<open>
  In server.js and in the application of the second file, \<open>createUser\<close> with the name
  of a user returns that user and leaves the store as it is. The router never does.
\<close>

lemma createUser_existing:
  assumes "find (\<lambda>u. user_username u = n) (users st) = Some u" and "n \<noteq> []"
  shows "server_createUser newId st (Some n)
           = (st, Inr \<lparr>created_username = n, created_id = user_id u\<rparr>)"
    and "app_createUser newId st (Some n)
           = (st, Inr \<lparr>created_username = n, created_id = user_id u\<rparr>)"
proof -
  from assms(1) have n: "user_username u = n"
    by (auto simp: find_Some_iff)
  show "server_createUser newId st (Some n)
           = (st, Inr \<lparr>created_username = n, created_id = user_id u\<rparr>)"
    by (simp add: server_createUser_def falsy_def str_def assms n)
  show "app_createUser newId st (Some n)
           = (st, Inr \<lparr>created_username = n, created_id = user_id u\<rparr>)"
    by (simp add: app_createUser_def falsy_def str_def assms n)
qed

lemma router_createUser_never_existing:
  "router_createUser accepts newId ms username \<noteq> (ms, Inr x)"
  by (simp add: router_createUser_def Let_def)

text \<open>
  Claim C9. The router's \<open>createUser\<close> does not look for a user of that name: with
  \<open>alice\<close> already stored, a schema with no constraint stores a second \<open>alice\<close> under
  the new id, and a schema with unique names makes \<open>save\<close> reject, which nothing
  catches. server.js and the application return the stored \<open>alice\<close> and store nothing.
\<close>

theorem router_createUser_duplicate:
  "router_createUser anyUser [13] members1 (Some ''alice'')
     = (members1 @ [\<lparr>member_id = [13], member_username = Some ''alice'', member_log = []\<rparr>],
        Inr (Some ''alice'', [13]))
   \<and> router_createUser uniqueUser [13] members1 (Some ''alice'') = (members1, Inl Unanswered)
   \<and> server_createUser [13] store1 (Some ''alice'')
     = (store1, Inr \<lparr>created_username = ''alice'', created_id = user_id alice\<rparr>)
   \<and> app_createUser [13] store1 (Some ''alice'')
     = (store1, Inr \<lparr>created_username = ''alice'', created_id = user_id alice\<rparr>)"
  by code_simp

section \<open>What the log query refuses\<close>

text \<open>
  Against claim C5 as it is stated: a limit that is not a number is not refused. For
  the sample user, \<open>limit=abc\<close> is answered with her whole log.
\<close>

theorem getLog_ignores_unreadable_limit:
  "server_getLog refused isoOnly 0 store1 aliceId None None (Some ''abc'')
     = Inr \<lparr>logs_id = user_id alice, logs_username = ''alice'', logs_count = 1,
            logs_log = [entry10]\<rparr>"
  by code_simp

lemma server_limit_unreadable:
  "parseInt (str limit) = None \<Longrightarrow> server_limit applies limit found = Inr found"
  by (simp add: server_limit_def)

lemma server_limit_not_positive:
  "parseInt (str limit) = Some v \<Longrightarrow> atMostZero v
     \<Longrightarrow> server_limit applies limit found = Inl InvalidLimit"
  using parseInt_str_truthy[of limit v] by (simp add: server_limit_def atMostZero_positive)

text \<open>
  Claim C5, amended. For an existing user, \<open>getLog\<close> of server.js fails with status
  400 and returns no log when \<open>from\<close> or \<open>to\<close> is a string that is not empty and
  is not a date, or when \<open>parseInt\<close> reads the limit as a number that is at most
  zero: zero, a negative integer, or \<open>-Infinity\<close> for a negative one beyond the range
  of a number. A limit that \<open>parseInt\<close> cannot read is not applied: the answer is
  the one given with no limit.
\<close>

theorem getLog_validation:
  assumes "findById st userId = Inr (Some u)"
  shows "((truthy from \<and> newDate other (str from) = None)
          \<or> (truthy to \<and> newDate other (str to) = None)
          \<or> (\<exists>v. parseInt (str limit) = Some v \<and> atMostZero v)
          \<longrightarrow> (\<exists>e. server_getLog applies other tz st userId from to limit = Inl e \<and> status e = Some 400))
       \<and> (parseInt (str limit) = None
          \<longrightarrow> server_getLog applies other tz st userId from to limit
              = server_getLog applies other tz st userId from to None)"
proof (intro conjI impI)
  assume bad: "(truthy from \<and> newDate other (str from) = None)
          \<or> (truthy to \<and> newDate other (str to) = None)
          \<or> (\<exists>v. parseInt (str limit) = Some v \<and> atMostZero v)"
  show "\<exists>e. server_getLog applies other tz st userId from to limit = Inl e \<and> status e = Some 400"
  proof (cases "server_dateFilter other tz from to")
    case (Inl e)
    then have "e = InvalidFrom \<or> e = InvalidTo"
      by (auto simp: server_dateFilter_def split: if_splits)
    with Inl show ?thesis
      by (auto simp: server_getLog_def assms)
  next
    case (Inr p)
    then have "\<not> (truthy from \<and> newDate other (str from) = None)"
      and "\<not> (truthy to \<and> newDate other (str to) = None)"
      by (auto simp: server_dateFilter_def split: if_splits)
    with bad obtain n where n: "parseInt (str limit) = Some n" "atMostZero n"
      by blast
    show ?thesis
      by (cases p) (simp add: server_getLog_def assms Inr server_limit_not_positive[OF n])
  qed
next
  assume "parseInt (str limit) = None"
  then have eq: "server_limit applies limit found = server_limit applies None found" for found
    by (simp add: server_limit_unreadable server_limit_None)
  show "server_getLog applies other tz st userId from to limit
              = server_getLog applies other tz st userId from to None"
    unfolding server_getLog_def eq ..
qed

text \<open>
  The theorem at \<open>from=yesterday\<close> for an engine that reads date-only forms, at
  \<open>limit=0\<close> and at \<open>limit=abc\<close>.
\<close>

theorem getLog_validation_witness:
  "(\<exists>e. server_getLog refused isoOnly 0 store1 aliceId (Some ''yesterday'') None None = Inl e
        \<and> status e = Some 400)
   \<and> (\<exists>e. server_getLog refused isoOnly 0 store1 aliceId None None (Some ''0'') = Inl e
        \<and> status e = Some 400)
   \<and> server_getLog refused isoOnly 0 store1 aliceId None None (Some ''abc'')
       = server_getLog refused isoOnly 0 store1 aliceId None None None"
proof -
  have 1: "findById store1 aliceId = Inr (Some alice)"
    by code_simp
  have 2: "truthy (Some ''yesterday'') \<and> newDate isoOnly (str (Some ''yesterday'')) = None"
    by code_simp
  have 3: "parseInt (str (Some ''0'')) = Some (Num 0) \<and> atMostZero (Num 0)"
    by code_simp
  have 4: "parseInt (str (Some ''abc'')) = None"
    by code_simp
  from getLog_validation [OF 1, where ?from = "Some ''yesterday''" and other = isoOnly
      and to = None and limit = None and tz = 0 and applies = refused] 2
  have a: "\<exists>e. server_getLog refused isoOnly 0 store1 aliceId (Some ''yesterday'') None None = Inl e
        \<and> status e = Some 400"
    by blast
  from getLog_validation [OF 1, where ?from = None and other = isoOnly
      and to = None and limit = "Some ''0''" and tz = 0 and applies = refused] 3
  have b: "\<exists>e. server_getLog refused isoOnly 0 store1 aliceId None None (Some ''0'') = Inl e
        \<and> status e = Some 400"
    by blast
  from getLog_validation [OF 1, where ?from = None and other = isoOnly
      and to = None and limit = "Some ''abc''" and tz = 0 and applies = refused] 4
  have c: "server_getLog refused isoOnly 0 store1 aliceId None None (Some ''abc'')
       = server_getLog refused isoOnly 0 store1 aliceId None None None"
    by blast
  from a b c show ?thesis by (intro conjI)
qed

section \<open>Ids that resolve to no user\<close>






section \<open>The date of a new exercise\<close>

text \<open>
  Against claim C7 as it is stated: the application of the second file refuses a date
  that is given and is not a date, with status 400, and stores nothing.
\<close>

theorem app_rejects_unparsable_date:
  "app_addExercise isoOnly 0 (noon 10) [77] store0 aliceId
       (Some ''run'') (Some ''30'') (Some ''not-a-date'') = (store0, Inl InvalidDate)
   \<and> status InvalidDate = Some 400"
  by code_simp

text \<open>
  Claim C7, amended. For an existing user and a description and duration that pass, the
  date is optional. In server.js a date that is absent, empty, blank or not a date gives
  an exercise dated at the clock of the request, with no error. In the application of
  the second file an absent or empty date does the same (for a positive duration), and
  a date that is given and is not a date is refused and nothing is stored.
\<close>

theorem addExercise_date_defaults_to_now:
  assumes "findById st userId = Inr (Some u)"
    and "truthy description" and "parseInt (str duration) = Some n"
  shows "(falsy date \<or> trim (str date) = [] \<or> newDate other (str date) = None
            \<longrightarrow> server_addExercise other tz now newId st userId description duration date
                = (st\<lparr>exercises := exercises st @
                       [\<lparr>exercise_id = newId, exercise_userId = user_id u,
                         exercise_description = str description, exercise_duration = n,
                         exercise_date = now\<rparr>]\<rparr>,
                   Inr \<lparr>added_id = user_id u, added_username = user_username u,
                        added_description = str description, added_duration = jsonNumber n,
                        added_date = toDateString tz now\<rparr>))
       \<and> (falsy date \<and> positive n
            \<longrightarrow> app_addExercise other tz now newId st userId description duration date
                = (st\<lparr>exercises := exercises st @
                       [\<lparr>exercise_id = newId, exercise_userId = user_id u,
                         exercise_description = str description, exercise_duration = n,
                         exercise_date = now\<rparr>]\<rparr>,
                   Inr \<lparr>added_id = user_id u, added_username = user_username u,
                        added_description = str description, added_duration = jsonNumber n,
                        added_date = toDateString tz now\<rparr>))
       \<and> (truthy date \<and> newDate other (str date) = None
            \<longrightarrow> app_addExercise other tz now newId st userId description duration date
                = (st, Inl InvalidDate))"
proof (intro conjI impI)
  assume "falsy date \<or> trim (str date) = [] \<or> newDate other (str date) = None"
  then have "(if truthy date \<and> trim (str date) \<noteq> []
                        then (case newDate other (str date) of None \<Rightarrow> now | Some t \<Rightarrow> t)
                        else now) = now"
    by (auto simp: truthy_def)
  then show "server_addExercise other tz now newId st userId description duration date
                = (st\<lparr>exercises := exercises st @
                       [\<lparr>exercise_id = newId, exercise_userId = user_id u,
                         exercise_description = str description, exercise_duration = n,
                         exercise_date = now\<rparr>]\<rparr>,
                   Inr \<lparr>added_id = user_id u, added_username = user_username u,
                        added_description = str description, added_duration = jsonNumber n,
                        added_date = toDateString tz now\<rparr>)"
    by (simp add: server_addExercise_ok[OF assms] Let_def)
next
  assume "falsy date \<and> positive n"
  with assms(2) parseInt_str_truthy[OF assms(3)]
  show "app_addExercise other tz now newId st userId description duration date
                = (st\<lparr>exercises := exercises st @
                       [\<lparr>exercise_id = newId, exercise_userId = user_id u,
                         exercise_description = str description, exercise_duration = n,
                         exercise_date = now\<rparr>]\<rparr>,
                   Inr \<lparr>added_id = user_id u, added_username = user_username u,
                        added_description = str description, added_duration = jsonNumber n,
                        added_date = toDateString tz now\<rparr>)"
    by (simp add: app_addExercise_def assms(1,3) truthy_def atMostZero_positive Let_def)
next
  assume "truthy date \<and> newDate other (str date) = None"
  with assms(2) parseInt_str_truthy[OF assms(3)]
  show "app_addExercise other tz now newId st userId description duration date
                = (st, Inl InvalidDate)"
    by (simp add: app_addExercise_def assms(1) truthy_def)
qed

text \<open>
  The theorem at the date \<open>not-a-date\<close> for server.js and at no date for the
  application, at noon of 2023-01-10.
\<close>

theorem addExercise_date_defaults_to_now_witness:
  "server_addExercise isoOnly 0 (noon 10) [77] store0 aliceId
       (Some ''run'') (Some ''30'') (Some ''not-a-date'')
     = (store0\<lparr>exercises := exercises store0 @
            [\<lparr>exercise_id = [77], exercise_userId = user_id alice,
              exercise_description = str (Some ''run''), exercise_duration = Num 30,
              exercise_date = noon 10\<rparr>]\<rparr>,
        Inr \<lparr>added_id = user_id alice, added_username = user_username alice,
             added_description = str (Some ''run''), added_duration = jsonNumber (Num 30),
             added_date = toDateString 0 (noon 10)\<rparr>)
   \<and> app_addExercise isoOnly 0 (noon 10) [77] store0 aliceId (Some ''run'') (Some ''30'') None
     = (store0\<lparr>exercises := exercises store0 @
            [\<lparr>exercise_id = [77], exercise_userId = user_id alice,
              exercise_description = str (Some ''run''), exercise_duration = Num 30,
              exercise_date = noon 10\<rparr>]\<rparr>,
        Inr \<lparr>added_id = user_id alice, added_username = user_username alice,
             added_description = str (Some ''run''), added_duration = jsonNumber (Num 30),
             added_date = toDateString 0 (noon 10)\<rparr>)
   \<and> toDateString 0 (noon 10) = ''Tue Jan 10 2023'' \<and> jsonNumber (Num 30) = Some 30"
proof -
  have 1: "findById store0 aliceId = Inr (Some alice)"
    by code_simp
  have 2: "truthy (Some ''run'')"
    by code_simp
  have 3: "parseInt (str (Some ''30'')) = Some (Num 30)"
    by code_simp
  have 4: "newDate isoOnly (str (Some ''not-a-date'')) = None"
    by code_simp
  have 5: "falsy None \<and> positive (Num 30)"
    by code_simp
  have 6: "toDateString 0 (noon 10) = ''Tue Jan 10 2023'' \<and> jsonNumber (Num 30) = Some 30"
    by code_simp
  note t = addExercise_date_defaults_to_now [OF 1 2 3]
  from t [where date = "Some ''not-a-date''" and other = isoOnly and tz = 0 and now = "noon 10"
      and newId = "[77]"] 4
  have a: "server_addExercise isoOnly 0 (noon 10) [77] store0 aliceId
       (Some ''run'') (Some ''30'') (Some ''not-a-date'')
     = (store0\<lparr>exercises := exercises store0 @
            [\<lparr>exercise_id = [77], exercise_userId = user_id alice,
              exercise_description = str (Some ''run''), exercise_duration = Num 30,
              exercise_date = noon 10\<rparr>]\<rparr>,
        Inr \<lparr>added_id = user_id alice, added_username = user_username alice,
             added_description = str (Some ''run''), added_duration = jsonNumber (Num 30),
             added_date = toDateString 0 (noon 10)\<rparr>)"
    by blast
  from t [where date = None and other = isoOnly and tz = 0 and now = "noon 10"
      and newId = "[77]"] 5
  have b: "app_addExercise isoOnly 0 (noon 10) [77] store0 aliceId (Some ''run'') (Some ''30'') None
     = (store0\<lparr>exercises := exercises store0 @
            [\<lparr>exercise_id = [77], exercise_userId = user_id alice,
              exercise_description = str (Some ''run''), exercise_duration = Num 30,
              exercise_date = noon 10\<rparr>]\<rparr>,
        Inr \<lparr>added_id = user_id alice, added_username = user_username alice,
             added_description = str (Some ''run''), added_duration = jsonNumber (Num 30),
             added_date = toDateString 0 (noon 10)\<rparr>)"
    by blast
  show ?thesis
    by (rule conjI [OF a conjI [OF b 6]])
qed

section \<open>How dates are rendered\<close>

lemma server_addExercise_date:
  "server_addExercise other tz now newId st userId description duration date = (st', Inr a)
     \<Longrightarrow> \<exists>ex. exercises st' = exercises st @ [ex]
            \<and> exercise_date ex =
                  (if truthy date \<and> trim (str date) \<noteq> []
                   then (case newDate other (str date) of None \<Rightarrow> now | Some t \<Rightarrow> t)
                   else now)
            \<and> added_date a = toDateString tz (exercise_date ex)"
  by (auto simp: server_addExercise_def Let_def split: if_splits option.splits sum.splits)

lemma newDate_iso: "parseIsoDate s = Some t \<Longrightarrow> newDate other s = Some t"
  by (simp add: newDate_def)

lemma parseIsoDate_2020_02_02: "parseIsoDate ''2020-02-02'' = Some 1580601600000"
  by code_simp

lemma dateString_18294: "dateString 18294 = ''Sun Feb 02 2020''"
  by code_simp

lemma dateString_18293: "dateString 18293 = ''Sat Feb 01 2020''"
  by code_simp

lemma local_day_east:
  assumes "0 \<le> tz" "tz < 1440"
  shows "localTime tz 1580601600000 div msPerDay = 18294"
proof -
  have "1580601600000 + tz * 60000 = 86400000 * 18294 + tz * 60000" by simp
  moreover have "0 \<le> tz * 60000" "tz * 60000 < 86400000" using assms by simp_all
  ultimately have "(1580601600000 + tz * 60000) div 86400000 = 18294"
    by (intro int_div_pos_eq[where r = "tz * 60000"]) simp_all
  then show ?thesis by (simp add: localTime_def msPerDay_def)
qed

lemma local_day_west:
  assumes "- 1440 \<le> tz" "tz < 0"
  shows "localTime tz 1580601600000 div msPerDay = 18293"
proof -
  have "1580601600000 + tz * 60000 = 86400000 * 18293 + (86400000 + tz * 60000)" by simp
  moreover have "0 \<le> 86400000 + tz * 60000" "86400000 + tz * 60000 < 86400000"
    using assms by simp_all
  ultimately have "(1580601600000 + tz * 60000) div 86400000 = 18293"
    by (intro int_div_pos_eq[where r = "86400000 + tz * 60000"]) simp_all
  then show ?thesis by (simp add: localTime_def msPerDay_def)
qed

lemma echo_east:
  assumes "0 \<le> tz" "tz < 1440"
  shows "toDateString tz 1580601600000 = ''Sun Feb 02 2020''"
  unfolding toDateString_def local_day_east[OF assms] by (rule dateString_18294)

lemma echo_west:
  assumes "- 1440 \<le> tz" "tz < 0"
  shows "toDateString tz 1580601600000 = ''Sat Feb 01 2020''"
  unfolding toDateString_def local_day_west[OF assms] by (rule dateString_18293)

lemma date_2020_02_02:
  "(if truthy (Some ''2020-02-02'') \<and> trim (str (Some ''2020-02-02'')) \<noteq> []
    then (case newDate other (str (Some ''2020-02-02'')) of None \<Rightarrow> now | Some t \<Rightarrow> t)
    else now) = 1580601600000"
proof -
  have d: "truthy (Some ''2020-02-02'')" "trim (str (Some ''2020-02-02'')) \<noteq> []"
    by code_simp+
  have p: "newDate other (str (Some ''2020-02-02'')) = Some 1580601600000"
    unfolding str_def option.case by (rule newDate_iso[OF parseIsoDate_2020_02_02])
  show ?thesis
    unfolding p using d by simp
qed

lemma server_addExercise_2020_02_02:
  assumes "findById st userId = Inr (Some u)"
    and "truthy description" and "parseInt (str duration) = Some n"
  shows "\<exists>st'. server_addExercise other tz now newId st userId description duration
                  (Some ''2020-02-02'')
           = (st', Inr \<lparr>added_id = user_id u, added_username = user_username u,
                added_description = str description, added_duration = jsonNumber n,
                added_date = toDateString tz 1580601600000\<rparr>)"
  unfolding server_addExercise_ok[OF assms] date_2020_02_02 Let_def by blast

lemma iso_timestamp_is_no_date_string: "\<not> isDateString ''2020-02-02T00:00:00.000Z''"
  by code_simp

text \<open>
  Against claim C8 as it is stated: the date is rendered in the local time of the server,
  and the year has as many digits as it needs. With the server five hours west of
  Greenwich, the date \<open>2020-02-02\<close> (midnight UTC) is answered as the first of
  February; at a clock in the year 10000 the year has five digits.
\<close>

theorem date_echo_depends_on_zone_and_year:
  "snd (server_addExercise isoOnly (- 300) (noon 10) [77] store0 aliceId
          (Some ''run'') (Some ''30'') (Some ''2020-02-02''))
     = Inr \<lparr>added_id = user_id alice, added_username = ''alice'', added_description = ''run'',
            added_duration = Some 30, added_date = ''Sat Feb 01 2020''\<rparr>
   \<and> snd (server_addExercise isoOnly 0 253402300800000 [77] store0 aliceId
          (Some ''run'') (Some ''30'') None)
     = Inr \<lparr>added_id = user_id alice, added_username = ''alice'', added_description = ''run'',
            added_duration = Some 30, added_date = ''Sat Jan 01 10000''\<rparr>"
  by code_simp

text \<open>
  Claim C8, amended. The date that \<open>addExercise\<close> of server.js answers is the date
  string of the date it stores with the new exercise (the date that was given, or the
  clock of the request), and the date of every entry of a log of \<open>getLog\<close> is the
  date string of the date of a stored exercise. The date string of an instant is of the
  form \<open>Www Mmm DD YYYY\<close> (the year on four digits or more, after a minus sign when
  negative), which an ISO timestamp is not, and it names the local calendar day of the
  instant: the day \<open>d\<close> of the month \<open>m\<close> of the year \<open>y\<close> on which the instant
  falls at the offset of the server, and the weekday of that day. So the date
  \<open>2020-02-02\<close>, midnight UTC, is answered as \<open>Sun Feb 02 2020\<close> when the server
  is at or east of Greenwich (less than a day), and as \<open>Sat Feb 01 2020\<close> when it is
  west of it.
\<close>

theorem dates_are_local_date_strings:
  "(\<forall>st' a. server_addExercise other tz now newId st userId description duration date
                = (st', Inr a)
        \<longrightarrow> (\<exists>ex. exercises st' = exercises st @ [ex]
               \<and> exercise_date ex =
                   (if truthy date \<and> trim (str date) \<noteq> []
                    then (case newDate other (str date) of None \<Rightarrow> now | Some t \<Rightarrow> t)
                    else now)
               \<and> added_date a = toDateString tz (exercise_date ex)
               \<and> isDateString (added_date a)))
   \<and> (\<forall>r. server_getLog applies other tz st userId from to limit = Inr r
        \<longrightarrow> (\<exists>found. set found \<subseteq> set (exercises st)
               \<and> map entry_date (logs_log r)
                   = map (\<lambda>ex. toDateString tz (exercise_date ex)) found
               \<and> list_all (\<lambda>e. isDateString (entry_date e)) (logs_log r)))
   \<and> isDateString (toDateString tz t)
   \<and> \<not> isDateString ''2020-02-02T00:00:00.000Z''
   \<and> (\<exists>y m d. 1 \<le> m \<and> m \<le> 12 \<and> 1 \<le> d \<and> d \<le> daysInMonth y m
          \<and> localTime tz t div msPerDay = makeDay y m d
          \<and> toDateString tz t =
               weekdayNames ! nat ((makeDay y m d + 4) mod 7) @ '' '' @ monthNames ! nat (m - 1)
               @ '' '' @ zeroPadded d 2 @ '' ''
               @ (if y < 0 then ''-'' else []) @ zeroPadded \<bar>y\<bar> 4)
   \<and> (1 \<le> m \<and> m \<le> 12 \<and> 1 \<le> d \<and> d \<le> daysInMonth y m
        \<and> localTime tz t div msPerDay = makeDay y m d
        \<longrightarrow> toDateString tz t =
               weekdayNames ! nat ((makeDay y m d + 4) mod 7) @ '' '' @ monthNames ! nat (m - 1)
               @ '' '' @ zeroPadded d 2 @ '' ''
               @ (if y < 0 then ''-'' else []) @ zeroPadded \<bar>y\<bar> 4)
   \<and> (findById st userId = Inr (Some u) \<and> truthy description
        \<and> parseInt (str duration) = Some n \<and> 0 \<le> tz \<and> tz < 1440
        \<longrightarrow> (\<exists>st' a. server_addExercise other tz now newId st userId description duration
                        (Some ''2020-02-02'') = (st', Inr a)
                    \<and> added_date a = ''Sun Feb 02 2020''))
   \<and> (findById st userId = Inr (Some u) \<and> truthy description
        \<and> parseInt (str duration) = Some n \<and> - 1440 \<le> tz \<and> tz < 0
        \<longrightarrow> (\<exists>st' a. server_addExercise other tz now newId st userId description duration
                        (Some ''2020-02-02'') = (st', Inr a)
                    \<and> added_date a = ''Sat Feb 01 2020''))"
proof -
  have 1: "\<forall>st' a. server_addExercise other tz now newId st userId description duration date
                = (st', Inr a)
        \<longrightarrow> (\<exists>ex. exercises st' = exercises st @ [ex]
               \<and> exercise_date ex =
                   (if truthy date \<and> trim (str date) \<noteq> []
                    then (case newDate other (str date) of None \<Rightarrow> now | Some t \<Rightarrow> t)
                    else now)
               \<and> added_date a = toDateString tz (exercise_date ex)
               \<and> isDateString (added_date a))"
  proof (intro allI impI)
    fix st' a
    assume "server_addExercise other tz now newId st userId description duration date
              = (st', Inr a)"
    from server_addExercise_date[OF this] obtain ex where
      ex: "exercises st' = exercises st @ [ex]"
        "exercise_date ex =
                   (if truthy date \<and> trim (str date) \<noteq> []
                    then (case newDate other (str date) of None \<Rightarrow> now | Some t \<Rightarrow> t)
                    else now)"
        "added_date a = toDateString tz (exercise_date ex)"
      by blast
    from ex(3) have "isDateString (added_date a)"
      by (simp add: toDateString_shape)
    with ex show "\<exists>ex. exercises st' = exercises st @ [ex]
               \<and> exercise_date ex =
                   (if truthy date \<and> trim (str date) \<noteq> []
                    then (case newDate other (str date) of None \<Rightarrow> now | Some t \<Rightarrow> t)
                    else now)
               \<and> added_date a = toDateString tz (exercise_date ex)
               \<and> isDateString (added_date a)"
      by blast
  qed
  have 2: "\<forall>r. server_getLog applies other tz st userId from to limit = Inr r
        \<longrightarrow> (\<exists>found. set found \<subseteq> set (exercises st)
               \<and> map entry_date (logs_log r)
                   = map (\<lambda>ex. toDateString tz (exercise_date ex)) found
               \<and> list_all (\<lambda>e. isDateString (entry_date e)) (logs_log r))"
  proof (intro allI impI)
    fix r
    assume "server_getLog applies other tz st userId from to limit = Inr r"
    from server_getLog_entries[OF this] obtain found where
      f: "set found \<subseteq> set (exercises st)" "logs_log r = map (logEntry tz) found"
      by blast
    have a: "map entry_date (logs_log r) = map (\<lambda>ex. toDateString tz (exercise_date ex)) found"
      by (simp add: f(2) logEntry_def)
    have b: "list_all (\<lambda>e. isDateString (entry_date e)) (logs_log r)"
      by (simp add: f(2) list_all_iff logEntry_def toDateString_shape)
    from f(1) a b show "\<exists>found. set found \<subseteq> set (exercises st)
               \<and> map entry_date (logs_log r)
                   = map (\<lambda>ex. toDateString tz (exercise_date ex)) found
               \<and> list_all (\<lambda>e. isDateString (entry_date e)) (logs_log r)"
      by blast
  qed
  have 3: "isDateString (toDateString tz t)"
    by (rule toDateString_shape)
  have 4: "\<not> isDateString ''2020-02-02T00:00:00.000Z''"
    by (rule iso_timestamp_is_no_date_string)
  have 6: "toDateString tz t =
               weekdayNames ! nat ((makeDay y m d + 4) mod 7) @ '' '' @ monthNames ! nat (m - 1)
               @ '' '' @ zeroPadded d 2 @ '' ''
               @ (if y < 0 then ''-'' else []) @ zeroPadded \<bar>y\<bar> 4"
    if "1 \<le> m \<and> m \<le> 12 \<and> 1 \<le> d \<and> d \<le> daysInMonth y m
        \<and> localTime tz t div msPerDay = makeDay y m d" for y m d
  proof -
    from that have v: "1 \<le> m" "m \<le> 12" "1 \<le> d" "d \<le> daysInMonth y m"
      and l: "localTime tz t div msPerDay = makeDay y m d"
      by simp_all
    show ?thesis
      unfolding toDateString_def l by (rule dateString_makeDay[OF v])
  qed
  have 5: "\<exists>y m d. 1 \<le> m \<and> m \<le> 12 \<and> 1 \<le> d \<and> d \<le> daysInMonth y m
          \<and> localTime tz t div msPerDay = makeDay y m d
          \<and> toDateString tz t =
               weekdayNames ! nat ((makeDay y m d + 4) mod 7) @ '' '' @ monthNames ! nat (m - 1)
               @ '' '' @ zeroPadded d 2 @ '' ''
               @ (if y < 0 then ''-'' else []) @ zeroPadded \<bar>y\<bar> 4"
  proof -
    from calendar_day_exists[of "localTime tz t div msPerDay"] obtain y m d where
      c: "1 \<le> m \<and> m \<le> 12 \<and> 1 \<le> d \<and> d \<le> daysInMonth y m
            \<and> localTime tz t div msPerDay = makeDay y m d"
      by blast
    from c 6[OF c] show ?thesis by blast
  qed
  have 7: "findById st userId = Inr (Some u) \<and> truthy description
        \<and> parseInt (str duration) = Some n \<and> 0 \<le> tz \<and> tz < 1440
        \<longrightarrow> (\<exists>st' a. server_addExercise other tz now newId st userId description duration
                        (Some ''2020-02-02'') = (st', Inr a)
                    \<and> added_date a = ''Sun Feb 02 2020'')"
  proof
    assume a: "findById st userId = Inr (Some u) \<and> truthy description
        \<and> parseInt (str duration) = Some n \<and> 0 \<le> tz \<and> tz < 1440"
    then have e: "toDateString tz 1580601600000 = ''Sun Feb 02 2020''"
      by (simp add: echo_east)
    from a server_addExercise_2020_02_02[of st userId u description duration n other tz now newId]
    show "\<exists>st' a. server_addExercise other tz now newId st userId description duration
                        (Some ''2020-02-02'') = (st', Inr a)
                    \<and> added_date a = ''Sun Feb 02 2020''"
      unfolding e by auto
  qed
  have 8: "findById st userId = Inr (Some u) \<and> truthy description
        \<and> parseInt (str duration) = Some n \<and> - 1440 \<le> tz \<and> tz < 0
        \<longrightarrow> (\<exists>st' a. server_addExercise other tz now newId st userId description duration
                        (Some ''2020-02-02'') = (st', Inr a)
                    \<and> added_date a = ''Sat Feb 01 2020'')"
  proof
    assume a: "findById st userId = Inr (Some u) \<and> truthy description
        \<and> parseInt (str duration) = Some n \<and> - 1440 \<le> tz \<and> tz < 0"
    then have e: "toDateString tz 1580601600000 = ''Sat Feb 01 2020''"
      by (simp add: echo_west)
    from a server_addExercise_2020_02_02[of st userId u description duration n other tz now newId]
    show "\<exists>st' a. server_addExercise other tz now newId st userId description duration
                        (Some ''2020-02-02'') = (st', Inr a)
                    \<and> added_date a = ''Sat Feb 01 2020''"
      unfolding e by auto
  qed
  have six: "1 \<le> m \<and> m \<le> 12 \<and> 1 \<le> d \<and> d \<le> daysInMonth y m
        \<and> localTime tz t div msPerDay = makeDay y m d
        \<longrightarrow> toDateString tz t =
               weekdayNames ! nat ((makeDay y m d + 4) mod 7) @ '' '' @ monthNames ! nat (m - 1)
               @ '' '' @ zeroPadded d 2 @ '' ''
               @ (if y < 0 then ''-'' else []) @ zeroPadded \<bar>y\<bar> 4"
    using 6 by blast
  show ?thesis
    by (rule conjI [OF 1 conjI [OF 2 conjI [OF 3 conjI [OF 4 conjI [OF 5 conjI [OF six
          conjI [OF 7 8]]]]]]])
qed

text \<open>
  The theorem for the sample answers at UTC, where the exercise added at noon of
  2023-01-10 is stored with that date and answered as the Tuesday it is, and for the
  date \<open>2020-02-02\<close> one hour east and five hours west of Greenwich.
\<close>

theorem dates_are_local_date_strings_witness:
  "(\<exists>ex. exercises (store0\<lparr>exercises := [run 77 10]\<rparr>) = exercises store0 @ [ex]
        \<and> exercise_date ex = noon 10
        \<and> added_date added0 = toDateString 0 (exercise_date ex)
        \<and> isDateString (added_date added0))
   \<and> (\<exists>found. set found \<subseteq> set (exercises store1)
        \<and> map entry_date [entry10] = map (\<lambda>ex. toDateString 0 (exercise_date ex)) found
        \<and> list_all (\<lambda>e. isDateString (entry_date e)) [entry10])
   \<and> isDateString (toDateString 0 (noon 10))
   \<and> toDateString 0 (noon 10) = ''Tue Jan 10 2023''
   \<and> (\<exists>st' a. server_addExercise isoOnly 60 (noon 10) [77] store0 aliceId
                  (Some ''run'') (Some ''30'') (Some ''2020-02-02'') = (st', Inr a)
              \<and> added_date a = ''Sun Feb 02 2020'')
   \<and> (\<exists>st' a. server_addExercise isoOnly (- 300) (noon 10) [77] store0 aliceId
                  (Some ''run'') (Some ''30'') (Some ''2020-02-02'') = (st', Inr a)
              \<and> added_date a = ''Sat Feb 01 2020'')"
proof -
  have s: "server_addExercise isoOnly 0 (noon 10) [77] store0 aliceId (Some ''run'') (Some ''30'') None
      = (store0\<lparr>exercises := [run 77 10]\<rparr>, Inr added0)"
    by code_simp
  have h: "(if truthy None \<and> trim (str None) \<noteq> []
            then (case newDate isoOnly (str None) of None \<Rightarrow> noon 10 | Some t \<Rightarrow> t)
            else noon 10) = noon 10"
    by (simp add: not_truthy_None)
  have g: "server_getLog refused isoOnly 0 store1 aliceId None None None
      = Inr \<lparr>logs_id = user_id alice, logs_username = ''alice'', logs_count = 1,
             logs_log = [entry10]\<rparr>"
    by code_simp
  have c: "(1::int) \<le> 1 \<and> (1::int) \<le> 12 \<and> (1::int) \<le> 10 \<and> 10 \<le> daysInMonth 2023 1
        \<and> localTime 0 (noon 10) div msPerDay = makeDay 2023 1 10"
    by code_simp
  have f: "weekdayNames ! nat ((makeDay 2023 1 10 + 4) mod 7) @ '' '' @ monthNames ! nat (1 - 1)
               @ '' '' @ zeroPadded 10 2 @ '' ''
               @ (if (2023::int) < 0 then ''-'' else []) @ zeroPadded \<bar>2023\<bar> 4
             = ''Tue Jan 10 2023''"
    by code_simp
  have u: "findById store0 aliceId = Inr (Some alice) \<and> truthy (Some ''run'')
        \<and> parseInt (str (Some ''30'')) = Some (Num 30)"
    by code_simp
  have e: "(0::int) \<le> 60 \<and> (60::int) < 1440"
    by simp
  have w: "- 1440 \<le> (- 300::int) \<and> (- 300::int) < 0"
    by simp
  note T0 = dates_are_local_date_strings [where other = isoOnly and tz = 0 and now = "noon 10"
      and newId = "[77]" and st = store0 and userId = aliceId and description = "Some ''run''"
      and duration = "Some ''30''" and date = None and applies = refused and ?from = None
      and to = None and limit = None and t = "noon 10" and y = 2023 and m = 1 and d = 10
      and u = alice and n = "Num 30"]
  note T1 = dates_are_local_date_strings [where other = isoOnly and tz = 0 and now = "noon 10"
      and newId = "[77]" and st = store1 and userId = aliceId and description = "Some ''run''"
      and duration = "Some ''30''" and date = None and applies = refused and ?from = None
      and to = None and limit = None and t = "noon 10" and y = 2023 and m = 1 and d = 10
      and u = alice and n = "Num 30"]
  note E = dates_are_local_date_strings [where other = isoOnly and tz = 60 and now = "noon 10"
      and newId = "[77]" and st = store0 and userId = aliceId and description = "Some ''run''"
      and duration = "Some ''30''" and date = None and applies = refused and ?from = None
      and to = None and limit = None and t = "noon 10" and y = 2023 and m = 1 and d = 10
      and u = alice and n = "Num 30"]
  note W = dates_are_local_date_strings [where other = isoOnly and tz = "- 300" and now = "noon 10"
      and newId = "[77]" and st = store0 and userId = aliceId and description = "Some ''run''"
      and duration = "Some ''30''" and date = None and applies = refused and ?from = None
      and to = None and limit = None and t = "noon 10" and y = 2023 and m = 1 and d = 10
      and u = alice and n = "Num 30"]
  have 1: "\<exists>ex. exercises (store0\<lparr>exercises := [run 77 10]\<rparr>) = exercises store0 @ [ex]
        \<and> exercise_date ex = noon 10
        \<and> added_date added0 = toDateString 0 (exercise_date ex)
        \<and> isDateString (added_date added0)"
    using T0 [THEN conjunct1, rule_format, OF s] unfolding h .
  have 2: "\<exists>found. set found \<subseteq> set (exercises store1)
        \<and> map entry_date [entry10] = map (\<lambda>ex. toDateString 0 (exercise_date ex)) found
        \<and> list_all (\<lambda>e. isDateString (entry_date e)) [entry10]"
    using T1 [THEN conjunct2, THEN conjunct1, rule_format, OF g] by simp
  have 3: "isDateString (toDateString 0 (noon 10))"
    by (rule T0 [THEN conjunct2, THEN conjunct2, THEN conjunct1])
  have 4: "toDateString 0 (noon 10) = ''Tue Jan 10 2023''"
    using T0 [THEN conjunct2, THEN conjunct2, THEN conjunct2, THEN conjunct2, THEN conjunct2,
              THEN conjunct1, THEN mp, OF c]
    unfolding f .
  have 5: "\<exists>st' a. server_addExercise isoOnly 60 (noon 10) [77] store0 aliceId
                  (Some ''run'') (Some ''30'') (Some ''2020-02-02'') = (st', Inr a)
              \<and> added_date a = ''Sun Feb 02 2020''"
    by (rule E [THEN conjunct2, THEN conjunct2, THEN conjunct2, THEN conjunct2, THEN conjunct2,
                THEN conjunct2, THEN conjunct1, THEN mp, OF conjI [OF u [THEN conjunct1]
                  conjI [OF u [THEN conjunct2, THEN conjunct1]
                    conjI [OF u [THEN conjunct2, THEN conjunct2] e]]]])
  have 6: "\<exists>st' a. server_addExercise isoOnly (- 300) (noon 10) [77] store0 aliceId
                  (Some ''run'') (Some ''30'') (Some ''2020-02-02'') = (st', Inr a)
              \<and> added_date a = ''Sat Feb 01 2020''"
    by (rule W [THEN conjunct2, THEN conjunct2, THEN conjunct2, THEN conjunct2, THEN conjunct2,
                THEN conjunct2, THEN conjunct2, THEN mp, OF conjI [OF u [THEN conjunct1]
                  conjI [OF u [THEN conjunct2, THEN conjunct1]
                    conjI [OF u [THEN conjunct2, THEN conjunct2] w]]]])
  show ?thesis
    by (rule conjI [OF 1 conjI [OF 2 conjI [OF 3 conjI [OF 4 conjI [OF 5 6]]]]])
qed

end
